theory Spec2Isabelle
  imports Main "HOL-Library.Word"
begin

unbundle bit_operations_syntax

section \<open>Python strings\<close>

text \<open>
  A Python \<open>str\<close> is a sequence of Unicode code points, and \<open>len\<close>, slicing, \<open>in\<close>,
  \<open>rfind\<close> and \<open>strip\<close> all count code points. A string is therefore a list of natural
  numbers, one per code point; \<open>ascii ''abc''\<close> is the string of an ASCII literal, and the
  non-Latin tokens of the source are written by their code points.
\<close>

type_synonym pystr = "nat list"

abbreviation ascii :: "string \<Rightarrow> pystr" where
  "ascii s \<equiv> map of_char s"

datatype py_error = UnicodeEncodeError | ValueError | IndexError | TypeError

text \<open>
  \<open>str.isspace\<close> for one code point: the set used by \<open>str.strip()\<close>, by
  \<open>str.split()\<close> and by \<open>\s\<close> in a \<open>str\<close> pattern.
\<close>

definition isspace :: "nat \<Rightarrow> bool" where
  "isspace c \<longleftrightarrow>
     (9 \<le> c \<and> c \<le> 13) \<or> (28 \<le> c \<and> c \<le> 32) \<or> c = 133 \<or> c = 160 \<or> c = 5760 \<or>
     (8192 \<le> c \<and> c \<le> 8202) \<or> c = 8232 \<or> c = 8233 \<or> c = 8239 \<or> c = 8287 \<or> c = 12288"

definition strip :: "pystr \<Rightarrow> pystr" where
  "strip s = rev (dropWhile isspace (rev (dropWhile isspace s)))"

text \<open>\<open>s.startswith(w)\<close>, \<open>s.endswith(w)\<close> and \<open>w in s\<close>.\<close>

definition startswith :: "pystr \<Rightarrow> pystr \<Rightarrow> bool" where
  "startswith s w \<longleftrightarrow> take (length w) s = w"

definition endswith :: "pystr \<Rightarrow> pystr \<Rightarrow> bool" where
  "endswith s w \<longleftrightarrow> length w \<le> length s \<and> drop (length s - length w) s = w"

fun py_in :: "pystr \<Rightarrow> pystr \<Rightarrow> bool" where
  "py_in w [] = (w = [])"
| "py_in w (c # cs) = (startswith (c # cs) w \<or> py_in w cs)"

text \<open>\<open>any(word in text for word in words)\<close>.\<close>

definition any_in :: "pystr list \<Rightarrow> pystr \<Rightarrow> bool" where
  "any_in ws t = list_ex (\<lambda>w. py_in w t) ws"

text \<open>What \<open>in\<close> decides: \<open>w\<close> occurs in \<open>t\<close> when \<open>t\<close> is some text, then \<open>w\<close>, then some text.\<close>

definition occurs :: "pystr \<Rightarrow> pystr \<Rightarrow> bool" where
  "occurs w t \<longleftrightarrow> (\<exists>pre suf. t = pre @ w @ suf)"

text \<open>\<open>s.rfind(c)\<close> for a one-character needle: the highest index, or \<open>-1\<close>.\<close>

fun rfind :: "nat \<Rightarrow> pystr \<Rightarrow> int" where
  "rfind c [] = -1"
| "rfind c (x # xs) =
     (let r = rfind c xs in if 0 \<le> r then r + 1 else if x = c then 0 else -1)"

text \<open>
  \<open>str.lower()\<close> is Unicode-aware and is taken as a parameter \<open>low\<close> wherever the source
  calls it. On ASCII text it is the function below, which the concrete evaluations use.
\<close>

definition ascii_lower :: "pystr \<Rightarrow> pystr" where
  "ascii_lower s = map (\<lambda>c. if 65 \<le> c \<and> c \<le> 90 then c + 32 else c) s"

section \<open>Price parsing (\<open>TabelogScraper.parse_price\<close>)\<close>

text \<open>
  The character class of the pattern \<open>[...]+\<close>: the yen sign U+00A5, the full-width yen
  sign U+FFE5, the comma, and the ASCII digits.
\<close>

definition price_char :: "nat \<Rightarrow> bool" where
  "price_char c \<longleftrightarrow> c = 165 \<or> c = 65509 \<or> c = 44 \<or> (48 \<le> c \<and> c \<le> 57)"

text \<open>\<open>re.findall\<close> of a one-class pattern \<open>[...]+\<close>: the maximal runs, left to right.\<close>

function findall_runs :: "(nat \<Rightarrow> bool) \<Rightarrow> pystr \<Rightarrow> pystr list" where
  "findall_runs P [] = []"
| "findall_runs P (c # cs) =
     (if P c then (c # takeWhile P cs) # findall_runs P (dropWhile P cs)
      else findall_runs P cs)"
  by pat_completeness auto
termination
  by (relation "measure (\<lambda>(P, s). length s)")
     (auto simp: length_dropWhile_le less_Suc_eq_le)

text \<open>The three \<open>replace(c, '')\<close> calls: both yen signs and the comma are removed.\<close>

definition remove_char :: "nat \<Rightarrow> pystr \<Rightarrow> pystr" where
  "remove_char c s = filter (\<lambda>x. x \<noteq> c) s"

definition clean_price :: "pystr \<Rightarrow> pystr" where
  "clean_price p = remove_char 44 (remove_char 65509 (remove_char 165 p))"

text \<open>
  \<open>int(s)\<close> on the strings that reach it here, which hold ASCII digits only: the decimal
  value, and \<open>ValueError\<close> on the empty string. Python integers are unbounded (the
  interpreter's limit on the number of digits of a conversion is left out).
\<close>

definition is_digit :: "nat \<Rightarrow> bool" where
  "is_digit c \<longleftrightarrow> 48 \<le> c \<and> c \<le> 57"

definition digits_value :: "pystr \<Rightarrow> int" where
  "digits_value s = foldl (\<lambda>acc c. 10 * acc + (int c - 48)) 0 s"

definition py_int :: "pystr \<Rightarrow> py_error + int" where
  "py_int s = (if s \<noteq> [] \<and> list_all is_digit s then Inr (digits_value s) else Inl ValueError)"

text \<open>The loop over \<open>prices\<close> that keeps the largest value; an exception leaves the loop.\<close>

fun max_price :: "pystr list \<Rightarrow> int \<Rightarrow> py_error + int" where
  "max_price [] max_val = Inr max_val"
| "max_price (p # ps) max_val =
     (case py_int (clean_price p) of
        Inl e \<Rightarrow> Inl e
      | Inr val \<Rightarrow> max_price ps (if val > max_val then val else max_val))"

definition price_tier :: "int \<Rightarrow> int option" where
  "price_tier max_val =
     (if max_val = 0 then None
      else if max_val < 1000 then Some 1
      else if max_val < 4000 then Some 2
      else if max_val < 10000 then Some 3
      else Some 4)"

definition parse_price :: "pystr \<Rightarrow> int option" where
  "parse_price price_str =
     (if price_str = [] then None
      else let prices = findall_runs price_char price_str in
        if prices = [] then None
        else (case max_price prices 0 of
                Inl e \<Rightarrow> None
              | Inr max_val \<Rightarrow> price_tier max_val))"

section \<open>Identity assignment (\<open>generate_poi_id\<close>)\<close>

type_synonym byte = "8 word"

text \<open>
  \<open>str.encode('utf-8')\<close>: one to four bytes per code point. A surrogate code point
  (U+D800 to U+DFFF) cannot be encoded and raises \<open>UnicodeEncodeError\<close>.
\<close>

definition is_surrogate :: "nat \<Rightarrow> bool" where
  "is_surrogate c \<longleftrightarrow> 55296 \<le> c \<and> c \<le> 57343"

definition utf8_char :: "nat \<Rightarrow> byte list" where
  "utf8_char c =
     (if c < 128 then [of_nat c]
      else if c < 2048 then [of_nat (192 + c div 64), of_nat (128 + c mod 64)]
      else if c < 65536 then
        [of_nat (224 + c div 4096), of_nat (128 + c div 64 mod 64), of_nat (128 + c mod 64)]
      else
        [of_nat (240 + c div 262144), of_nat (128 + c div 4096 mod 64),
         of_nat (128 + c div 64 mod 64), of_nat (128 + c mod 64)])"

definition utf8_encode :: "pystr \<Rightarrow> py_error + byte list" where
  "utf8_encode s =
     (if list_ex is_surrogate s then Inl UnicodeEncodeError else Inr (concat (map utf8_char s)))"

text \<open>
  \<open>hashlib.md5\<close>: the MD5 message digest (RFC 1321) of a byte string, sixteen bytes.
  The message is padded to a multiple of 64 bytes, cut into blocks of sixteen little-endian
  32-bit words, and each block runs 64 steps over the state \<open>(a, b, c, d)\<close>.
\<close>

definition md5_s :: "nat list" where
  "md5_s = [7,12,17,22,7,12,17,22,7,12,17,22,7,12,17,22,
            5,9,14,20,5,9,14,20,5,9,14,20,5,9,14,20,
            4,11,16,23,4,11,16,23,4,11,16,23,4,11,16,23,
            6,10,15,21,6,10,15,21,6,10,15,21,6,10,15,21]"

definition md5_K :: "32 word list" where
  "md5_K = [0xd76aa478,0xe8c7b756,0x242070db,0xc1bdceee,0xf57c0faf,0x4787c62a,0xa8304613,0xfd469501,
            0x698098d8,0x8b44f7af,0xffff5bb1,0x895cd7be,0x6b901122,0xfd987193,0xa679438e,0x49b40821,
            0xf61e2562,0xc040b340,0x265e5a51,0xe9b6c7aa,0xd62f105d,0x02441453,0xd8a1e681,0xe7d3fbc8,
            0x21e1cde6,0xc33707d6,0xf4d50d87,0x455a14ed,0xa9e3e905,0xfcefa3f8,0x676f02d9,0x8d2a4c8a,
            0xfffa3942,0x8771f681,0x6d9d6122,0xfde5380c,0xa4beea44,0x4bdecfa9,0xf6bb4b60,0xbebfbc70,
            0x289b7ec6,0xeaa127fa,0xd4ef3085,0x04881d05,0xd9d4d039,0xe6db99e5,0x1fa27cf8,0xc4ac5665,
            0xf4292244,0x432aff97,0xab9423a7,0xfc93a039,0x655b59c3,0x8f0ccc92,0xffeff47d,0x85845dd1,
            0x6fa87e4f,0xfe2ce6e0,0xa3014314,0x4e0811a1,0xf7537e82,0xbd3af235,0x2ad7d2bb,0xeb86d391]"

type_synonym md5_state = "32 word \<times> 32 word \<times> 32 word \<times> 32 word"

definition rotl :: "nat \<Rightarrow> 32 word \<Rightarrow> 32 word" where
  "rotl n x = push_bit n x OR drop_bit (32 - n) x"

definition md5_pad :: "byte list \<Rightarrow> byte list" where
  "md5_pad bs =
     (let n = length bs;
          z = (55 + 64 - n mod 64) mod 64;
          bits = (of_nat (8 * n) :: 64 word)
      in bs @ [0x80] @ replicate z 0 @ map (\<lambda>i. ucast (drop_bit (8 * i) bits)) [0..<8])"

definition le32 :: "byte list \<Rightarrow> 32 word" where
  "le32 bs = foldr (\<lambda>b acc. push_bit 8 acc OR ucast b) bs 0"

fun chunks :: "nat \<Rightarrow> nat \<Rightarrow> 'a list \<Rightarrow> 'a list list" where
  "chunks 0 k xs = []"
| "chunks (Suc n) k xs = take k xs # chunks n k (drop k xs)"

definition md5_step :: "32 word list \<Rightarrow> md5_state \<Rightarrow> nat \<Rightarrow> md5_state" where
  "md5_step M st i =
     (case st of (a, b, c, d) \<Rightarrow>
        let (f, g) =
              (if i < 16 then ((b AND c) OR (NOT b AND d), i)
               else if i < 32 then ((d AND b) OR (NOT d AND c), (5 * i + 1) mod 16)
               else if i < 48 then (b XOR c XOR d, (3 * i + 5) mod 16)
               else (c XOR (b OR NOT d), (7 * i) mod 16));
            f' = f + a + md5_K ! i + M ! g
        in (d, b + rotl (md5_s ! i) f', b, c))"

definition md5_block :: "md5_state \<Rightarrow> byte list \<Rightarrow> md5_state" where
  "md5_block st blk =
     (let M = map le32 (chunks 16 4 blk) in
      case st of (a0, b0, c0, d0) \<Rightarrow>
      case foldl (md5_step M) st [0..<64] of (a, b, c, d) \<Rightarrow> (a0 + a, b0 + b, c0 + c, d0 + d))"

definition bytes32 :: "32 word \<Rightarrow> byte list" where
  "bytes32 w = map (\<lambda>i. ucast (drop_bit (8 * i) w)) [0..<4]"

definition md5 :: "byte list \<Rightarrow> byte list" where
  "md5 bs =
     (let p = md5_pad bs in
      case foldl md5_block (0x67452301, 0xefcdab89, 0x98badcfe, 0x10325476)
             (chunks (length p div 64) 64 p)
      of (a, b, c, d) \<Rightarrow> bytes32 a @ bytes32 b @ bytes32 c @ bytes32 d)"

text \<open>\<open>hexdigest()\<close>: two lower-case hexadecimal digits per byte.\<close>

definition hex_char :: "nat \<Rightarrow> nat" where
  "hex_char n = (if n < 10 then 48 + n else 87 + n)"

definition hexdigest :: "byte list \<Rightarrow> pystr" where
  "hexdigest bs = concat (map (\<lambda>b. [hex_char (unat b div 16), hex_char (unat b mod 16)]) bs)"

definition is_hex_char :: "nat \<Rightarrow> bool" where
  "is_hex_char c \<longleftrightarrow> (48 \<le> c \<and> c \<le> 57) \<or> (97 \<le> c \<and> c \<le> 102)"

text \<open>
  \<open>hashlib.md5(s.encode('utf-8')).hexdigest()[:12]\<close>, the expression shared by
  \<open>GoTokyoEventScraper.generate_poi_id\<close>, \<open>TabelogScraper.generate_poi_id\<close>, the spider and
  the normalization pipeline.
\<close>

definition generate_poi_id :: "pystr \<Rightarrow> py_error + pystr" where
  "generate_poi_id url =
     (case utf8_encode url of
        Inl e \<Rightarrow> Inl e
      | Inr bs \<Rightarrow> Inr (take 12 (hexdigest (md5 bs))))"

section \<open>Coordinates\<close>

text \<open>
  Floating point is not modelled: \<open>'f\<close> is the type of Python floats, \<open>to_float\<close> is
  \<open>float()\<close> on a string (\<open>None\<close> when it raises \<open>ValueError\<close>) and \<open>float_true\<close> is the
  truth value of a float. \<open>re.search\<close> is a parameter as well: \<open>search pat s\<close> gives the
  groups of the leftmost match of pattern \<open>pat\<close> in \<open>s\<close>, if there is one.
\<close>

record 'f coords =
  lat :: "'f option"
  lon :: "'f option"

definition null_coords :: "'f coords" where
  "null_coords = \<lparr>lat = None, lon = None\<rparr>"

text \<open>A coordinate pair is never one-sided: both entries are null, or neither is.\<close>

definition paired :: "'f coords \<Rightarrow> bool" where
  "paired c \<longleftrightarrow> (lat c = None) = (lon c = None)"

datatype pattern =
    MapLinkCoords    \<comment> \<open>\<open>[@,](-?\d+\.\d+),(-?\d+\.\d+)\<close>\<close>
  | ScriptLatLng     \<comment> \<open>\<open>"lat":\s*(-?\d+\.\d+).*?"lng":\s*(-?\d+\.\d+)\<close>\<close>
  | JsonLatitude     \<comment> \<open>\<open>["']latitude["']\s*:\s*(-?\d+\.\d+)\<close>\<close>
  | JsonLongitude    \<comment> \<open>\<open>["']longitude["']\s*:\s*(-?\d+\.\d+)\<close>\<close>
  | MapQuery         \<comment> \<open>\<open>q=(-?\d+\.\d+),(-?\d+\.\d+)\<close>\<close>

type_synonym re_search = "pattern \<Rightarrow> pystr \<Rightarrow> pystr list option"

text \<open>\<open>match.group(i)\<close> and \<open>float(s)\<close>, with their exceptions.\<close>

definition group :: "pystr list \<Rightarrow> nat \<Rightarrow> py_error + pystr" where
  "group gs i = (if 1 \<le> i \<and> i \<le> length gs then Inr (gs ! (i - 1)) else Inl IndexError)"

definition py_float :: "(pystr \<Rightarrow> 'f option) \<Rightarrow> pystr \<Rightarrow> py_error + 'f" where
  "py_float to_float s = (case to_float s of None \<Rightarrow> Inl ValueError | Some x \<Rightarrow> Inr x)"

text \<open>\<open>{"lat": float(m.group(i)), "lon": float(n.group(j))}\<close>, evaluated left to right.\<close>

definition coords_of_groups ::
  "(pystr \<Rightarrow> 'f option) \<Rightarrow> pystr list \<Rightarrow> nat \<Rightarrow> pystr list \<Rightarrow> nat \<Rightarrow> py_error + 'f coords" where
  "coords_of_groups to_float m i n j =
     (case group m i of Inl e \<Rightarrow> Inl e | Inr a \<Rightarrow>
      case py_float to_float a of Inl e \<Rightarrow> Inl e | Inr x \<Rightarrow>
      case group n j of Inl e \<Rightarrow> Inl e | Inr b \<Rightarrow>
      case py_float to_float b of Inl e \<Rightarrow> Inl e | Inr y \<Rightarrow>
      Inr \<lparr>lat = Some x, lon = Some y\<rparr>)"

text \<open>
  The two scans of \<open>extract_coordinates\<close>: the first string that the pattern matches decides.
  \<open>Inr None\<close> is a loop that ended without a match, \<open>Inl e\<close> an exception.
\<close>

fun first_coords ::
  "re_search \<Rightarrow> (pystr \<Rightarrow> 'f option) \<Rightarrow> pattern \<Rightarrow> pystr list \<Rightarrow> py_error + 'f coords option" where
  "first_coords search to_float pat [] = Inr None"
| "first_coords search to_float pat (s # ss) =
     (case search pat s of
        None \<Rightarrow> first_coords search to_float pat ss
      | Some m \<Rightarrow>
          (case coords_of_groups to_float m 1 m 2 of
             Inl e \<Rightarrow> Inl e
           | Inr c \<Rightarrow> Inr (Some c)))"

text \<open>
  A fetched detail page, as far as coordinates go: the \<open>href\<close> of every map link, and
  \<open>script.string\<close> of every script element (\<open>None\<close> for a script without a single string).
\<close>

record detail_page =
  map_hrefs :: "pystr list"
  script_strings :: "pystr option list"

definition nonempty_strings :: "pystr option list \<Rightarrow> pystr list" where
  "nonempty_strings xs = List.map_filter (\<lambda>x. case x of None \<Rightarrow> None | Some s \<Rightarrow> if s = [] then None else Some s) xs"

text \<open>
  \<open>GoTokyoEventScraper.extract_coordinates\<close>. The page is \<open>None\<close> when the request or the
  parser raises; every exception inside the \<open>try\<close> ends in the final \<open>return\<close>.
\<close>

definition extract_coordinates ::
  "re_search \<Rightarrow> (pystr \<Rightarrow> 'f option) \<Rightarrow> detail_page option \<Rightarrow> 'f coords" where
  "extract_coordinates search to_float page =
     (case page of
        None \<Rightarrow> null_coords
      | Some pg \<Rightarrow>
          (case first_coords search to_float MapLinkCoords (map_hrefs pg) of
             Inl e \<Rightarrow> null_coords
           | Inr (Some c) \<Rightarrow> c
           | Inr None \<Rightarrow>
               (case first_coords search to_float ScriptLatLng (nonempty_strings (script_strings pg)) of
                  Inl e \<Rightarrow> null_coords
                | Inr (Some c) \<Rightarrow> c
                | Inr None \<Rightarrow> null_coords)))"

section \<open>The standalone event scraper (\<open>GoTokyoEventScraper\<close>)\<close>

record 'f poi =
  poi_id :: pystr
  poi_name :: pystr
  poi_type :: pystr
  category_tags :: "pystr list"
  neighborhood :: pystr
  price_range :: "int option"
  halal :: pystr
  cuisine :: "pystr list option"
  interest_tags :: "pystr list"
  coordinates :: "'f coords"
  typical_duration_minutes :: int
  best_time_of_day :: "pystr option"
  short_description :: pystr
  source_url :: pystr
  last_updated_ts :: pystr

text \<open>
  What BeautifulSoup hands to \<open>parse_event_card\<close> for one card: the resolved URL of the first
  link (\<open>urljoin(base_url, href)\<close>, \<open>None\<close> without a link), the text of the name, description,
  date and location elements, the texts of the tag elements, the detail page behind the link,
  and the clock reading \<open>datetime.now().isoformat()\<close>.
\<close>

record event_card =
  card_link :: "pystr option"
  card_name :: pystr
  card_desc :: "pystr option"
  card_date :: "pystr option"
  card_location :: "pystr option"
  card_tags :: "pystr list"
  card_detail :: "detail_page option"
  card_now :: pystr

text \<open>\<open>f"{a} {b}"\<close>.\<close>

definition spaced :: "pystr \<Rightarrow> pystr \<Rightarrow> pystr" where
  "spaced a b = a @ [32] @ b"

text \<open>The explicit tags: stripped texts that are non-empty and shorter than 50.\<close>

definition explicit_tags :: "pystr list \<Rightarrow> pystr list" where
  "explicit_tags texts = filter (\<lambda>t. t \<noteq> [] \<and> length t < 50) (map strip texts)"

text \<open>The six keyword rules, each appending its tag when one of its words occurs.\<close>

definition infer_tags :: "pystr \<Rightarrow> pystr list" where
  "infer_tags text_content =
     (if any_in [ascii ''festival'', ascii ''matsuri''] text_content then [ascii ''Festival''] else []) @
     (if any_in [ascii ''museum'', ascii ''exhibition'', ascii ''art''] text_content then [ascii ''Exhibition''] else []) @
     (if any_in [ascii ''temple'', ascii ''shrine'', ascii ''traditional''] text_content then [ascii ''Traditional''] else []) @
     (if any_in [ascii ''food'', ascii ''market'', ascii ''culinary''] text_content then [ascii ''Food''] else []) @
     (if any_in [ascii ''music'', ascii ''concert'', ascii ''performance''] text_content then [ascii ''Music''] else []) @
     (if any_in [ascii ''sakura'', ascii ''cherry'', ascii ''flower''] text_content then [ascii ''Seasonal''] else [])"

text \<open>\<open>category_tags\<close> as it stands after line 115: explicit tags, else inferred ones.\<close>

definition card_category_tags :: "(pystr \<Rightarrow> pystr) \<Rightarrow> pystr \<Rightarrow> pystr \<Rightarrow> pystr list \<Rightarrow> pystr list" where
  "card_category_tags low name description texts =
     (let tags = explicit_tags texts in
      if tags = [] then infer_tags (low (spaced name description)) else tags)"

text \<open>The situational tags appended to a copy of \<open>category_tags\<close>.\<close>

definition situational_tags :: "pystr \<Rightarrow> pystr list" where
  "situational_tags t =
     (if py_in (ascii ''family'') t then [ascii ''Family Friendly''] else []) @
     (if any_in [ascii ''night'', ascii ''evening'', ascii ''illumination''] t then [ascii ''Nightlife''] else []) @
     (if py_in (ascii ''free'') t then [ascii ''Free Entry''] else [])"

definition card_interest_tags :: "(pystr \<Rightarrow> pystr) \<Rightarrow> pystr \<Rightarrow> pystr \<Rightarrow> pystr list \<Rightarrow> pystr list" where
  "card_interest_tags low name description category =
     category @ situational_tags (low (spaced name description))"

text \<open>
  \<open>list(set(xs)) if xs else ["Event"]\<close>. Python does not specify the order in which a set is
  listed; \<open>remdups\<close> fixes one, and only membership is meaningful.
\<close>

definition tag_set_or_event :: "pystr list \<Rightarrow> pystr list" where
  "tag_set_or_event xs = (if xs = [] then [ascii ''Event''] else remdups xs)"

text \<open>
  The time-of-day scan, with its three word lists; the non-Latin words are U+671D,
  U+5348 U+5F8C and U+591C.
\<close>

definition morning_words :: "pystr list" where
  "morning_words = [ascii ''morning'', ascii ''am'', [26397]]"

definition afternoon_words :: "pystr list" where
  "afternoon_words = [ascii ''afternoon'', ascii ''pm'', [21320, 24460]]"

definition evening_words :: "pystr list" where
  "evening_words = [ascii ''evening'', ascii ''night'', [22812], ascii ''illumination'']"

definition best_time :: "pystr \<Rightarrow> pystr option" where
  "best_time time_text =
     (if any_in morning_words time_text then Some (ascii ''morning'')
      else if any_in afternoon_words time_text then Some (ascii ''afternoon'')
      else if any_in evening_words time_text then Some (ascii ''evening'')
      else None)"

text \<open>
  \<open>clean_neighborhood\<close>: the first key of the table, in its order, that occurs in the
  lower-cased text decides; otherwise the stripped text in title case (\<open>str.title\<close>).
\<close>

definition neighborhood_map :: "(pystr \<times> pystr) list" where
  "neighborhood_map =
     [(ascii ''shibuya'', ascii ''Shibuya''), (ascii ''shinjuku'', ascii ''Shinjuku''),
      (ascii ''harajuku'', ascii ''Harajuku''), (ascii ''asakusa'', ascii ''Asakusa''),
      (ascii ''ginza'', ascii ''Ginza''), (ascii ''roppongi'', ascii ''Roppongi''),
      (ascii ''akihabara'', ascii ''Akihabara''), (ascii ''ueno'', ascii ''Ueno''),
      (ascii ''tokyo station'', ascii ''Tokyo Station''), (ascii ''ikebukuro'', ascii ''Ikebukuro''),
      (ascii ''odaiba'', ascii ''Odaiba''), (ascii ''tsukiji'', ascii ''Tsukiji'')]"

definition clean_neighborhood :: "(pystr \<Rightarrow> pystr) \<Rightarrow> (pystr \<Rightarrow> pystr) \<Rightarrow> pystr \<Rightarrow> pystr" where
  "clean_neighborhood low title location_text =
     (if location_text = [] then ascii ''Tokyo''
      else (case find (\<lambda>(key, value). py_in key (low location_text)) neighborhood_map of
              Some (key, value) \<Rightarrow> value
            | None \<Rightarrow> title (strip location_text)))"

definition estimate_duration :: "(pystr \<Rightarrow> pystr) \<Rightarrow> pystr \<Rightarrow> pystr \<Rightarrow> int" where
  "estimate_duration low name description =
     (let t = low (spaced name description) in
      if any_in [ascii ''festival'', ascii ''matsuri''] t then 180
      else if any_in [ascii ''exhibition'', ascii ''museum''] t then 90
      else if any_in [ascii ''concert'', ascii ''performance'', ascii ''show''] t then 120
      else if any_in [ascii ''market'', ascii ''fair''] t then 60
      else if any_in [ascii ''ceremony'', ascii ''ritual''] t then 45
      else 90)"

text \<open>
  The truncation shared by \<open>create_short_description\<close> (limit 200, period beyond index 100) and
  the spider's \<open>clean_description\<close> (limit 300, period beyond index 150): a text longer than
  the limit is cut to the limit, and then either ends after its last period or gets
  \<open>"..."\<close> appended.
\<close>

definition truncate_at :: "nat \<Rightarrow> int \<Rightarrow> pystr \<Rightarrow> pystr" where
  "truncate_at limit min_period desc =
     (if length desc > limit then
        (let short = take limit desc; last_period = rfind 46 short in
         if last_period > min_period then take (nat (last_period + 1)) short
         else short @ ascii ''...'')
      else desc)"

definition create_short_description :: "pystr \<Rightarrow> pystr \<Rightarrow> pystr" where
  "create_short_description description event_date =
     (let desc = truncate_at 200 100 (strip description) in
      if event_date \<noteq> [] \<and> \<not> py_in event_date desc then strip (spaced desc event_date)
      else desc)"

text \<open>
  The description and the date of a card: the stripped text of the element, and without
  the element the name and the empty string.
\<close>

definition event_description :: "event_card \<Rightarrow> pystr" where
  "event_description element =
     (case card_desc element of Some d \<Rightarrow> strip d | None \<Rightarrow> strip (card_name element))"

definition event_date_text :: "event_card \<Rightarrow> pystr" where
  "event_date_text element = (case card_date element of Some d \<Rightarrow> strip d | None \<Rightarrow> [])"

text \<open>
  The record that \<open>parse_event_card\<close> builds for a card with the link \<open>event_url\<close>, once
  \<open>generate_poi_id\<close> has returned the id \<open>i\<close>.
\<close>

definition event_poi ::
  "(pystr \<Rightarrow> pystr) \<Rightarrow> (pystr \<Rightarrow> pystr) \<Rightarrow> re_search \<Rightarrow> (pystr \<Rightarrow> 'f option) \<Rightarrow> event_card
     \<Rightarrow> pystr \<Rightarrow> pystr \<Rightarrow> 'f poi" where
  "event_poi low title search to_float element event_url i =
     (let name = strip (card_name element);
          description = event_description element;
          event_date = event_date_text element;
          location = (case card_location element of Some l \<Rightarrow> strip l | None \<Rightarrow> ascii ''Tokyo'');
          category = card_category_tags low name description (card_tags element);
          interest = card_interest_tags low name description category;
          coords = extract_coordinates search to_float (card_detail element);
          time_text = low (spaced name (spaced description event_date))
      in \<lparr>poi_id = i,
          poi_name = name,
          poi_type = ascii ''event_venue'',
          category_tags = tag_set_or_event category,
          neighborhood = clean_neighborhood low title location,
          price_range = None,
          halal = ascii ''unknown'',
          cuisine = None,
          interest_tags = tag_set_or_event interest,
          coordinates = coords,
          typical_duration_minutes = estimate_duration low name description,
          best_time_of_day = best_time time_text,
          short_description = create_short_description description event_date,
          source_url = event_url,
          last_updated_ts = card_now element\<rparr>)"

text \<open>
  \<open>parse_event_card\<close>. Without a link it returns \<open>None\<close>; so it does when anything raises,
  which here is the encoding of the URL.
\<close>

definition parse_event_card ::
  "(pystr \<Rightarrow> pystr) \<Rightarrow> (pystr \<Rightarrow> pystr) \<Rightarrow> re_search \<Rightarrow> (pystr \<Rightarrow> 'f option) \<Rightarrow> event_card
     \<Rightarrow> 'f poi option" where
  "parse_event_card low title search to_float element =
     (case card_link element of
        None \<Rightarrow> None
      | Some event_url \<Rightarrow>
          (case generate_poi_id event_url of
             Inl e \<Rightarrow> None
           | Inr i \<Rightarrow> Some (event_poi low title search to_float element event_url i)))"

text \<open>
  \<open>scrape_events_page\<close>: the cards of a page (\<open>None\<close> when the request fails, which gives the
  empty list), each parsed, the \<open>None\<close> results left out.
\<close>

definition scrape_events_page ::
  "(pystr \<Rightarrow> pystr) \<Rightarrow> (pystr \<Rightarrow> pystr) \<Rightarrow> re_search \<Rightarrow> (pystr \<Rightarrow> 'f option)
     \<Rightarrow> event_card list option \<Rightarrow> 'f poi list" where
  "scrape_events_page low title search to_float page =
     (case page of
        None \<Rightarrow> []
      | Some cards \<Rightarrow> List.map_filter (parse_event_card low title search to_float) cards)"

text \<open>
  \<open>scrape_all_events\<close>. \<open>page_events url\<close> stands for the call \<open>scrape_events_page(url)\<close>,
  and \<open>pagination_links\<close> for the resolved URLs of the pagination links found on the events
  page (\<open>None\<close> when looking for them raises).
\<close>

definition events_url :: pystr where
  "events_url = ascii ''https://www.gotokyo.org/en/spot/index.html''"

definition urls_to_scrape :: "pystr list" where
  "urls_to_scrape =
     [events_url,
      ascii ''https://www.gotokyo.org/en/'',
      ascii ''https://www.gotokyo.org/en/event/index.html'',
      ascii ''https://www.gotokyo.org/en/travel-directory/result/index/genre_detail/8'',
      ascii ''https://www.gotokyo.org/en/calendar/index.html'']"

definition keep_event :: "pystr list \<Rightarrow> 'f poi \<Rightarrow> bool" where
  "keep_event seen_urls event \<longleftrightarrow>
     source_url event \<notin> set seen_urls \<and>
     length (poi_name event) > 5 \<and>
     poi_name event \<notin> set [ascii ''More details here'', ascii ''Beyond Tokyo''] \<and>
     \<not> list_ex (endswith (source_url event))
         [ascii ''/spot/index.html'', ascii ''/event/index.html'',
          ascii ''/tourists/spot/suburbs/fromtokyo/index.html'']"

text \<open>The inner loop over one page, on the pair \<open>(all_events, seen_urls)\<close>.\<close>

fun filter_page :: "'f poi list \<times> pystr list \<Rightarrow> 'f poi list \<Rightarrow> 'f poi list \<times> pystr list" where
  "filter_page (all_events, seen_urls) [] = (all_events, seen_urls)"
| "filter_page (all_events, seen_urls) (event # rest) =
     (if keep_event seen_urls event
      then filter_page (all_events @ [event], source_url event # seen_urls) rest
      else filter_page (all_events, seen_urls) rest)"

text \<open>The first five pagination links, without the events page and without repetitions.\<close>

fun additional_urls :: "pystr list \<Rightarrow> pystr list \<Rightarrow> pystr list" where
  "additional_urls acc [] = acc"
| "additional_urls acc (full_url # links) =
     (if full_url \<notin> set (events_url # acc) then additional_urls (acc @ [full_url]) links
      else additional_urls acc links)"

definition scrape_all_events :: "(pystr \<Rightarrow> 'f poi list) \<Rightarrow> pystr list option \<Rightarrow> 'f poi list" where
  "scrape_all_events page_events pagination_links =
     (let (all_events, seen_urls) =
            foldl (\<lambda>st url. filter_page st (page_events url)) ([], []) urls_to_scrape;
          events = all_events
      in case pagination_links of
           None \<Rightarrow> events
         | Some links \<Rightarrow>
             foldl (\<lambda>events url. events @ page_events url) events
               (additional_urls [] (take 5 links)))"

section \<open>The spider (\<open>GoTokyoEventsSpider\<close>) and its item loader\<close>

text \<open>\<open>sep.join(xs)\<close>, \<open>s.split(c)\<close> for a one-character separator, and \<open>re.sub(r'\s+', ' ', s)\<close>.\<close>

fun join :: "pystr \<Rightarrow> pystr list \<Rightarrow> pystr" where
  "join sep [] = []"
| "join sep [x] = x"
| "join sep (x # y # ys) = x @ sep @ join sep (y # ys)"

fun split_char :: "nat \<Rightarrow> pystr \<Rightarrow> pystr list" where
  "split_char c [] = [[]]"
| "split_char c (x # xs) =
     (if x = c then [] # split_char c xs
      else (case split_char c xs of
              [] \<Rightarrow> [[x]]
            | w # ws \<Rightarrow> (x # w) # ws))"

function collapse_ws :: "pystr \<Rightarrow> pystr" where
  "collapse_ws [] = []"
| "collapse_ws (c # cs) =
     (if isspace c then 32 # collapse_ws (dropWhile isspace cs) else c # collapse_ws cs)"
  by pat_completeness auto
termination
  by (relation "measure length") (auto simp: length_dropWhile_le less_Suc_eq_le)

text \<open>
  A \<open>POIItem\<close>: every field may be unset. A tag field holds a string or a list.
\<close>

datatype tags_value = TagStr pystr | TagList "pystr list"

record 'f item =
  i_id :: "pystr option"
  i_name :: "pystr option"
  i_type :: "pystr option"
  i_category_tags :: "tags_value option"
  i_neighborhood :: "pystr option"
  i_price_range :: "int option"
  i_halal :: "pystr option"
  i_cuisine :: "pystr list option"
  i_interest_tags :: "tags_value option"
  i_coordinates :: "'f coords option"
  i_typical_duration_minutes :: "int option"
  i_best_time_of_day :: "pystr option"
  i_short_description :: "pystr option"
  i_source_url :: "pystr option"
  i_last_updated_ts :: "pystr option"

text \<open>
  \<open>POIItemLoader\<close> has \<open>default_output_processor = TakeFirst()\<close> and declares no output
  processor of its own for any field. \<open>add_value\<close> collects the values given for a field in
  a list, and \<open>load_item\<close> stores for each field what \<open>TakeFirst\<close> returns for that list: the
  first value that is neither \<open>None\<close> nor the empty string; a field with no such value stays
  unset.
\<close>

definition take_first :: "pystr list \<Rightarrow> pystr option" where
  "take_first vals = find (\<lambda>v. v \<noteq> []) vals"

text \<open>
  What the selectors give for one card: the first link's \<open>href\<close>, the URL that
  \<open>urljoin(response.url, href)\<close> makes of it, and for each list of selectors the \<open>getall()\<close>
  result of every selector, in order.
\<close>

record spider_card =
  sc_href :: "pystr option"
  sc_url :: pystr
  sc_names :: "pystr list list"
  sc_descs :: "pystr list list"
  sc_dates :: "pystr list list"
  sc_locations :: "pystr list list"
  sc_tags :: "pystr list list"

text \<open>Each \<open>for selector in ...: parts = ...getall(); if parts: ...; break\<close>.\<close>

definition first_selection :: "pystr list list \<Rightarrow> pystr option" where
  "first_selection sels =
     (case find (\<lambda>parts. parts \<noteq> []) sels of
        None \<Rightarrow> None
      | Some parts \<Rightarrow> Some (strip (join [32] parts)))"

text \<open>\<open>category_tags\<close> and \<open>interest_tags\<close> of the spider, as passed to \<open>add_value\<close>.\<close>

definition spider_category_tags ::
  "(pystr \<Rightarrow> pystr) \<Rightarrow> pystr \<Rightarrow> pystr \<Rightarrow> pystr list \<Rightarrow> pystr list" where
  "spider_category_tags low name description texts =
     (let tags = card_category_tags low name description texts in
      if tags = [] then [ascii ''Event''] else tags)"

text \<open>
  The description of a card in the spider (the name when no selector gives a non-empty
  one) and its date text.
\<close>

definition spider_description :: "spider_card \<Rightarrow> pystr \<Rightarrow> pystr" where
  "spider_description element name =
     (case first_selection (sc_descs element) of
        None \<Rightarrow> name
      | Some d \<Rightarrow> if d = [] then name else d)"

definition spider_event_date :: "spider_card \<Rightarrow> pystr" where
  "spider_event_date element =
     (case first_selection (sc_dates element) of None \<Rightarrow> [] | Some d \<Rightarrow> d)"

text \<open>
  The item that the loader gives for a card with the id \<open>pid\<close> and the name \<open>name\<close>: the
  \<open>add_value\<close> calls of \<open>parse_event_card\<close>, then \<open>load_item()\<close>.
\<close>

definition spider_item :: "(pystr \<Rightarrow> pystr) \<Rightarrow> spider_card \<Rightarrow> pystr \<Rightarrow> pystr \<Rightarrow> 'f item" where
  "spider_item low element pid name =
     (let description = spider_description element name;
          event_date = spider_event_date element;
          location =
            (case first_selection (sc_locations element) of
               None \<Rightarrow> ascii ''Tokyo''
             | Some l \<Rightarrow> l);
          category = spider_category_tags low name description (concat (sc_tags element));
          interest = card_interest_tags low name description category;
          time_text = low (spaced name (spaced description event_date))
      in \<lparr>i_id = take_first [pid],
          i_name = take_first [strip name],
          i_type = take_first [low (strip (ascii ''event_venue''))],
          i_category_tags = map_option TagStr (take_first category),
          i_neighborhood = take_first [strip location],
          i_price_range = None,
          i_halal = take_first [ascii ''unknown''],
          i_cuisine = None,
          i_interest_tags = map_option TagStr (take_first interest),
          i_coordinates = None,
          i_typical_duration_minutes = None,
          i_best_time_of_day =
            (case best_time time_text of
               None \<Rightarrow> None
             | Some b \<Rightarrow> take_first [b]),
          i_short_description = take_first [strip description],
          i_source_url = take_first [sc_url element],
          i_last_updated_ts = None\<rparr>)"

text \<open>
  The spider's \<open>parse_event_card\<close>: \<open>None\<close> without a link, when the encoding of the URL
  raises, and for a name that is missing or shorter than 3.
\<close>

definition spider_parse_event_card :: "(pystr \<Rightarrow> pystr) \<Rightarrow> spider_card \<Rightarrow> 'f item option" where
  "spider_parse_event_card low element =
     (case sc_href element of
        None \<Rightarrow> None
      | Some link_elem \<Rightarrow>
          if link_elem = [] then None
          else (case generate_poi_id (sc_url element) of
                  Inl e \<Rightarrow> None
                | Inr pid \<Rightarrow>
                   (case first_selection (sc_names element) of
                      None \<Rightarrow> None
                    | Some name \<Rightarrow>
                        if name = [] \<or> length name < 3 then None
                        else Some (spider_item low element pid name))))"

text \<open>The spider's \<open>extract_coordinates\<close> returns \<open>None\<close> where the scraper's returns nulls.\<close>

definition spider_extract_coordinates ::
  "re_search \<Rightarrow> (pystr \<Rightarrow> 'f option) \<Rightarrow> detail_page \<Rightarrow> 'f coords option" where
  "spider_extract_coordinates search to_float pg =
     (case first_coords search to_float MapLinkCoords (map_hrefs pg) of
        Inl e \<Rightarrow> None
      | Inr (Some c) \<Rightarrow> Some c
      | Inr None \<Rightarrow>
          (case first_coords search to_float ScriptLatLng (nonempty_strings (script_strings pg)) of
             Inl e \<Rightarrow> None
           | Inr r \<Rightarrow> r))"

definition clean_description :: "pystr \<Rightarrow> pystr" where
  "clean_description description =
     (if description = [] then []
      else truncate_at 300 150 (collapse_ws (strip description)))"

text \<open>
  \<open>parse_event_detail\<close>: the detail page gives coordinates and, from the first selector with
  more than one text part, a description that replaces a shorter one.
\<close>

record detail_response =
  dr_page :: detail_page
  dr_descs :: "pystr list list"

definition parse_event_detail ::
  "re_search \<Rightarrow> (pystr \<Rightarrow> 'f option) \<Rightarrow> detail_response \<Rightarrow> 'f item \<Rightarrow> 'f item" where
  "parse_event_detail search to_float response poi_item =
     (let it1 = (case spider_extract_coordinates search to_float (dr_page response) of
                   None \<Rightarrow> poi_item
                 | Some c \<Rightarrow> poi_item\<lparr>i_coordinates := Some c\<rparr>)
      in case find (\<lambda>parts. length parts > 1) (dr_descs response) of
           None \<Rightarrow> it1
         | Some parts \<Rightarrow>
             (let detailed_desc = strip (join [32] parts);
                  old = (case i_short_description it1 of None \<Rightarrow> [] | Some d \<Rightarrow> d)
              in if length detailed_desc > length old
                 then it1\<lparr>i_short_description := Some (clean_description detailed_desc)\<rparr>
                 else it1))"

text \<open>
  One card in \<open>parse\<close>: an item whose URL differs from the page's is yielded by the detail
  callback (and not at all when that request fails or is filtered out, \<open>detail = None\<close>),
  any other item directly.
\<close>

definition spider_yield ::
  "(pystr \<Rightarrow> pystr) \<Rightarrow> re_search \<Rightarrow> (pystr \<Rightarrow> 'f option) \<Rightarrow> pystr \<Rightarrow> spider_card
     \<Rightarrow> detail_response option \<Rightarrow> 'f item option" where
  "spider_yield low search to_float response_url element detail =
     (case spider_parse_event_card low element of
        None \<Rightarrow> None
      | Some poi_item \<Rightarrow>
          (case i_source_url poi_item of
             None \<Rightarrow> Some poi_item
           | Some detail_url \<Rightarrow>
               if detail_url \<noteq> [] \<and> detail_url \<noteq> response_url
               then map_option (\<lambda>response. parse_event_detail search to_float response poi_item) detail
               else Some poi_item))"

section \<open>The item pipelines\<close>

text \<open>\<open>not adapter.get(field)\<close> on a string field: unset, or the empty string.\<close>

definition truthy_str :: "pystr option \<Rightarrow> bool" where
  "truthy_str v = (case v of None \<Rightarrow> False | Some s \<Rightarrow> s \<noteq> [])"

definition get_str :: "pystr option \<Rightarrow> pystr \<Rightarrow> pystr" where
  "get_str v dflt = (case v of None \<Rightarrow> dflt | Some s \<Rightarrow> s)"

text \<open>\<open>ValidationPipeline.process_item\<close>: \<open>None\<close> is the \<open>return None\<close> of a dropped item.\<close>

definition ValidationPipeline_process_item :: "'f item \<Rightarrow> 'f item option" where
  "ValidationPipeline_process_item it =
     (if \<not> truthy_str (i_id it) then None
      else if \<not> truthy_str (i_name it) then None
      else if \<not> truthy_str (i_type it) then None
      else if length (strip (get_str (i_name it) [])) < 3 then None
      else Some it)"

text \<open>\<open>POINormalizationPipeline.process_item\<close>, block by block.\<close>

definition assign_id :: "'f item \<Rightarrow> py_error + 'f item" where
  "assign_id it =
     (if truthy_str (i_id it) then Inr it
      else
        (let url = get_str (i_source_url it) [];
             name = get_str (i_name it) (ascii ''unnamed'')
         in case generate_poi_id (if url \<noteq> [] then url else name) of
              Inl e \<Rightarrow> Inl e
            | Inr i \<Rightarrow> Inr (it\<lparr>i_id := Some i\<rparr>)))"

definition poi_types :: "pystr list" where
  "poi_types = [ascii ''attraction'', ascii ''restaurant'', ascii ''shop'', ascii ''event_venue'']"

definition ensure_type :: "(pystr \<Rightarrow> pystr) \<Rightarrow> 'f item \<Rightarrow> 'f item" where
  "ensure_type low it =
     (let poi_type = strip (low (get_str (i_type it) [])) in
      if poi_type \<notin> set poi_types then it\<lparr>i_type := Some (ascii ''event_venue'')\<rparr> else it)"

definition clean_tags :: "tags_value option \<Rightarrow> tags_value option" where
  "clean_tags v =
     (case v of
        None \<Rightarrow> None
      | Some (TagStr tags) \<Rightarrow> Some (TagList (filter (\<lambda>t. t \<noteq> []) (map strip (split_char 44 tags))))
      | Some (TagList tags) \<Rightarrow> Some (TagList tags))"

definition tag_list :: "tags_value option \<Rightarrow> pystr list" where
  "tag_list v = (case v of Some (TagList tags) \<Rightarrow> tags | _ \<Rightarrow> [])"

definition set_defaults :: "'f item \<Rightarrow> 'f item" where
  "set_defaults it =
     it\<lparr>i_cuisine := (case i_cuisine it of Some (c # cs) \<Rightarrow> Some (c # cs) | _ \<Rightarrow> None),
        i_neighborhood := Some (if truthy_str (i_neighborhood it) then get_str (i_neighborhood it) []
                                else ascii ''Tokyo''),
        i_halal := Some (if truthy_str (i_halal it) then get_str (i_halal it) [] else ascii ''unknown''),
        i_price_range := (case i_price_range it of Some n \<Rightarrow> if n = 0 then None else Some n | None \<Rightarrow> None),
        i_coordinates := Some (case i_coordinates it of Some c \<Rightarrow> c | None \<Rightarrow> null_coords)\<rparr>"

definition set_duration :: "(pystr \<Rightarrow> pystr) \<Rightarrow> 'f item \<Rightarrow> 'f item" where
  "set_duration low it =
     (case i_typical_duration_minutes it of
        Some n \<Rightarrow> if n \<noteq> 0 then it
                  else it\<lparr>i_typical_duration_minutes :=
                         Some (if list_ex (\<lambda>tag. py_in (ascii ''festival'') (low tag)) (tag_list (i_category_tags it))
                               then 180 else 90)\<rparr>
      | None \<Rightarrow> it\<lparr>i_typical_duration_minutes :=
                     Some (if list_ex (\<lambda>tag. py_in (ascii ''festival'') (low tag)) (tag_list (i_category_tags it))
                           then 180 else 90)\<rparr>)"

definition POINormalizationPipeline_process_item ::
  "(pystr \<Rightarrow> pystr) \<Rightarrow> pystr \<Rightarrow> 'f item \<Rightarrow> py_error + 'f item" where
  "POINormalizationPipeline_process_item low now it =
     (case assign_id it of
        Inl e \<Rightarrow> Inl e
      | Inr it1 \<Rightarrow>
          (let it2 = ensure_type low it1;
               it3 = it2\<lparr>i_category_tags := clean_tags (i_category_tags it2),
                         i_interest_tags := clean_tags (i_interest_tags it2)\<rparr>;
               it4 = set_defaults it3;
               it5 = set_duration low it4;
               it6 = it5\<lparr>i_best_time_of_day :=
                           (if truthy_str (i_best_time_of_day it5) then i_best_time_of_day it5 else None)\<rparr>
           in Inr (it6\<lparr>i_last_updated_ts := Some now\<rparr>)))"

text \<open>
  \<open>FieldOrderPipeline\<close> rebuilds the item with its fields in a fixed order and changes no
  value; on a record it is the identity. \<open>JSONExportPipeline\<close> appends the item to its list.
\<close>

definition FieldOrderPipeline_process_item :: "'f item \<Rightarrow> 'f item" where
  "FieldOrderPipeline_process_item it = it"

definition JSONExportPipeline_process_item :: "'f item list \<Rightarrow> 'f item \<Rightarrow> 'f item list" where
  "JSONExportPipeline_process_item items it = items @ [it]"

text \<open>
  \<open>ITEM_PIPELINES\<close> orders the stages by their numbers: validation (200), normalization
  (300), field order (350), export (400). Scrapy hands the value a stage returns to the next
  stage. The \<open>None\<close> that validation returns for a dropped item makes \<open>ItemAdapter(None)\<close>
  in the next stage raise \<open>TypeError\<close>, and an exception in a stage ends the chain for that
  item: it never reaches the export. \<open>now\<close> is the clock reading of the normalization stage.
\<close>

definition process_item_chain ::
  "(pystr \<Rightarrow> pystr) \<Rightarrow> 'f item list \<Rightarrow> 'f item \<times> pystr \<Rightarrow> 'f item list" where
  "process_item_chain low exported it_now =
     (case ValidationPipeline_process_item (fst it_now) of
        None \<Rightarrow> exported
      | Some it1 \<Rightarrow>
          (case POINormalizationPipeline_process_item low (snd it_now) it1 of
             Inl e \<Rightarrow> exported
           | Inr it2 \<Rightarrow>
               JSONExportPipeline_process_item exported (FieldOrderPipeline_process_item it2)))"

text \<open>A crawl: the yielded items, each with its clock reading, go through the chain in turn.\<close>

definition crawl_export :: "(pystr \<Rightarrow> pystr) \<Rightarrow> ('f item \<times> pystr) list \<Rightarrow> 'f item list" where
  "crawl_export low yielded = foldl (process_item_chain low) [] yielded"

section \<open>The restaurant scraper (\<open>TabelogScraper\<close>)\<close>

text \<open>\<open>clean_text\<close>: \<open>" ".join(text.strip().split())\<close>, and \<open>""\<close> for \<open>None\<close> or \<open>""\<close>.\<close>

definition clean_text :: "pystr option \<Rightarrow> pystr" where
  "clean_text text =
     (case text of
        None \<Rightarrow> []
      | Some t \<Rightarrow> if t = [] then [] else join [32] (findall_runs (\<lambda>c. \<not> isspace c) t))"

text \<open>
  \<open>get_lat_lon\<close>: the first script in which both patterns match, else the map link. It has no
  \<open>try\<close> of its own, so an exception leaves it.
\<close>

fun script_lat_lon ::
  "re_search \<Rightarrow> (pystr \<Rightarrow> 'f option) \<Rightarrow> pystr list \<Rightarrow> py_error + 'f coords option" where
  "script_lat_lon search to_float [] = Inr None"
| "script_lat_lon search to_float (s # ss) =
     (case (search JsonLatitude s, search JsonLongitude s) of
        (Some lat_match, Some lon_match) \<Rightarrow>
          (case coords_of_groups to_float lat_match 1 lon_match 1 of
             Inl e \<Rightarrow> Inl e
           | Inr c \<Rightarrow> Inr (Some c))
      | _ \<Rightarrow> script_lat_lon search to_float ss)"

definition get_lat_lon ::
  "re_search \<Rightarrow> (pystr \<Rightarrow> 'f option) \<Rightarrow> pystr option list \<Rightarrow> pystr option \<Rightarrow> py_error + 'f coords" where
  "get_lat_lon search to_float scripts map_link =
     (case script_lat_lon search to_float (nonempty_strings scripts) of
        Inl e \<Rightarrow> Inl e
      | Inr (Some c) \<Rightarrow> Inr c
      | Inr None \<Rightarrow>
          (case map_link of
             None \<Rightarrow> Inr null_coords
           | Some href \<Rightarrow>
               (case search MapQuery href of
                  None \<Rightarrow> Inr null_coords
                | Some m \<Rightarrow> coords_of_groups to_float m 1 m 2)))"

text \<open>
  What the selectors give for one list item: the text and \<open>href\<close> of the name tag (\<open>None\<close>
  without one) with the URL \<open>urljoin\<close> makes of the \<open>href\<close>, the texts of the price, area and
  catch-phrase tags, and the clock reading. The rating is a float: the outcomes of its two
  comparisons \<open>rating >= 3.5\<close> and \<open>rating >= 3.7\<close> are inputs.
\<close>

record restaurant_card =
  rc_name :: "(pystr \<times> pystr) option"
  rc_joined :: pystr
  rc_rating_ge_35 :: bool
  rc_rating_ge_37 :: bool
  rc_price :: "pystr option"
  rc_area :: "pystr option"
  rc_catch :: "pystr option"
  rc_now :: pystr

text \<open>\<open>"night" if price_range and price_range > 2 else "afternoon"\<close>.\<close>

definition restaurant_best_time :: "int option \<Rightarrow> pystr" where
  "restaurant_best_time pr =
     (case pr of
        None \<Rightarrow> ascii ''afternoon''
      | Some n \<Rightarrow> if n \<noteq> 0 \<and> n > 2 then ascii ''night'' else ascii ''afternoon'')"

text \<open>The record that \<open>parse_restaurant_card\<close> builds, once the id \<open>i\<close> is there.\<close>

definition restaurant_poi :: "restaurant_card \<Rightarrow> pystr \<Rightarrow> pystr \<Rightarrow> pystr \<Rightarrow> pystr \<Rightarrow> 'f poi" where
  "restaurant_poi element category name_text detail_url i =
     (let name = clean_text (Some name_text);
          pr = (case rc_price element of None \<Rightarrow> None | Some t \<Rightarrow> parse_price t);
          location =
            (case rc_area element of
               None \<Rightarrow> ascii ''Tokyo''
             | Some a \<Rightarrow>
                 (case split_char 47 a of
                    [] \<Rightarrow> ascii ''Tokyo''
                  | part # parts \<Rightarrow> clean_text (Some part)));
          short_desc =
            (case rc_catch element of
               None \<Rightarrow> category @ ascii '' restaurant in '' @ location
             | Some d \<Rightarrow> clean_text (Some d));
          tags = [category] @ (if rc_rating_ge_35 element then [ascii ''Popular''] else [])
                   @ (if rc_rating_ge_37 element then [ascii ''Highly Rated''] else [])
      in \<lparr>poi_id = i,
          poi_name = name,
          poi_type = ascii ''restaurant'',
          category_tags = [category],
          neighborhood = location,
          price_range = pr,
          halal = ascii ''unknown'',
          cuisine = Some [category],
          interest_tags = tags,
          coordinates = null_coords,
          typical_duration_minutes = 60,
          best_time_of_day = Some (restaurant_best_time pr),
          short_description = short_desc,
          source_url = detail_url,
          last_updated_ts = rc_now element\<rparr>)"

text \<open>
  \<open>parse_restaurant_card\<close>: \<open>None\<close> without a name tag and when the encoding of the URL
  raises.
\<close>

definition parse_restaurant_card :: "restaurant_card \<Rightarrow> pystr \<Rightarrow> 'f poi option" where
  "parse_restaurant_card element category =
     (case rc_name element of
        None \<Rightarrow> None
      | Some (name_text, href) \<Rightarrow>
          (let detail_url = (if startswith href (ascii ''http'') then href else rc_joined element) in
           case generate_poi_id detail_url of
             Inl e \<Rightarrow> None
           | Inr i \<Rightarrow> Some (restaurant_poi element category name_text detail_url i)))"

text \<open>
  A fetched detail page: the header and data text of every table row that has both, the
  script strings, the \<open>href\<close> of the map link, and the title and body of the promotional
  comment.
\<close>

record detail_raw =
  dp_rows :: "(pystr \<times> pystr) list"
  dp_scripts :: "pystr option list"
  dp_map_link :: "pystr option"
  dp_pr_comment :: "(pystr option \<times> pystr option) option"

record 'f details =
  price_text :: "pystr option"
  awards :: "pystr option"
  categories :: "pystr option"
  remarks :: "pystr option"
  private_rooms :: "pystr option"
  address :: "pystr option"
  d_coordinates :: "'f coords option"
  generated_description :: pystr

definition info_row :: "(pystr \<Rightarrow> pystr) \<Rightarrow> 'f details \<Rightarrow> pystr \<times> pystr \<Rightarrow> 'f details" where
  "info_row low d row =
     (let h_text = low (clean_text (Some (fst row)));
          d_text = clean_text (Some (snd row))
      in if py_in (ascii ''average price'') h_text then d\<lparr>price_text := Some d_text\<rparr>
         else if py_in (ascii ''awards'') h_text then d\<lparr>awards := Some d_text\<rparr>
         else if py_in (ascii ''categories'') h_text then d\<lparr>categories := Some d_text\<rparr>
         else if py_in (ascii ''remarks'') h_text then d\<lparr>remarks := Some d_text\<rparr>
         else if py_in (ascii ''private rooms'') h_text then d\<lparr>private_rooms := Some d_text\<rparr>
         else if py_in (ascii ''address'') h_text then d\<lparr>address := Some d_text\<rparr>
         else d)"

text \<open>The description built when there is no promotional comment (lines 262 to 289).\<close>

definition constructed_description :: "(pystr \<Rightarrow> pystr) \<Rightarrow> 'f details \<Rightarrow> pystr" where
  "constructed_description low d =
     join (ascii ''. '')
       ((if truthy_str (awards d) then
           [ascii ''Awards: '' @
              (let awards_text = get_str (awards d) [] in
               if length awards_text > 150 then take 147 awards_text @ ascii ''...'' else awards_text)]
         else []) @
        (if truthy_str (remarks d) then
           [ascii ''Remarks: '' @
              (let r = get_str (remarks d) [] in
               if length r > 100 then take 100 r @ ascii ''...'' else r)]
         else []) @
        (if truthy_str (private_rooms d) \<and> py_in (ascii ''available'') (low (get_str (private_rooms d) []))
         then [ascii ''Private rooms available.''] else []) @
        (if truthy_str (categories d) then
           [ascii ''Specializes in '' @ get_str (categories d) [] @ ascii ''.'']
         else []))"

definition pr_comment_description :: "(pystr option \<times> pystr option) option \<Rightarrow> pystr" where
  "pr_comment_description pr =
     (case pr of
        None \<Rightarrow> []
      | Some (pr_title, pr_body) \<Rightarrow>
          (let title_text = clean_text pr_title; body_text = clean_text pr_body in
           if title_text \<noteq> [] \<and> body_text \<noteq> [] then spaced title_text body_text
           else if title_text \<noteq> [] then title_text
           else if body_text \<noteq> [] then body_text
           else []))"

text \<open>
  \<open>parse_detail_page\<close>; \<open>None\<close> is the empty dict returned for a failed request and for any
  exception.
\<close>

definition parse_detail_page ::
  "(pystr \<Rightarrow> pystr) \<Rightarrow> re_search \<Rightarrow> (pystr \<Rightarrow> 'f option) \<Rightarrow> ('f \<Rightarrow> bool) \<Rightarrow> detail_raw option
     \<Rightarrow> 'f details option" where
  "parse_detail_page low search to_float float_true page =
     (case page of
        None \<Rightarrow> None
      | Some pg \<Rightarrow>
          (let d0 = foldl (info_row low)
                      \<lparr>price_text = None, awards = None, categories = None, remarks = None,
                       private_rooms = None, address = None, d_coordinates = None,
                       generated_description = []\<rparr>
                      (dp_rows pg)
           in case get_lat_lon search to_float (dp_scripts pg) (dp_map_link pg) of
                Inl e \<Rightarrow> None
              | Inr coords \<Rightarrow>
                  (let d1 = (case lat coords of
                               None \<Rightarrow> d0
                             | Some x \<Rightarrow> if float_true x then d0\<lparr>d_coordinates := Some coords\<rparr> else d0);
                       short_desc = pr_comment_description (dp_pr_comment pg)
                   in Some (d1\<lparr>generated_description :=
                                 (if short_desc = [] then constructed_description low d1
                                  else short_desc)\<rparr>))))"

text \<open>The update of a list item's record from its detail page, in \<open>scrape_category\<close>.\<close>

definition apply_details :: "'f poi \<Rightarrow> 'f details option \<Rightarrow> 'f poi" where
  "apply_details p details =
     (case details of
        None \<Rightarrow> p
      | Some d \<Rightarrow>
          (let p1 = (if truthy_str (price_text d) then
                       (case parse_price (get_str (price_text d) []) of
                          None \<Rightarrow> p
                        | Some new_price \<Rightarrow> if new_price \<noteq> 0 then p\<lparr>price_range := Some new_price\<rparr> else p)
                     else p);
               p2 = (if generated_description d \<noteq> [] then p1\<lparr>short_description := generated_description d\<rparr>
                     else if truthy_str (remarks d) then p1\<lparr>short_description := get_str (remarks d) []\<rparr>
                     else p1)
           in case d_coordinates d of
                None \<Rightarrow> p2
              | Some c \<Rightarrow> p2\<lparr>coordinates := c\<rparr>))"

definition scrape_restaurant ::
  "(pystr \<Rightarrow> pystr) \<Rightarrow> re_search \<Rightarrow> (pystr \<Rightarrow> 'f option) \<Rightarrow> ('f \<Rightarrow> bool) \<Rightarrow> restaurant_card
     \<Rightarrow> pystr \<Rightarrow> detail_raw option \<Rightarrow> 'f poi option" where
  "scrape_restaurant low search to_float float_true element category page =
     map_option (\<lambda>p. apply_details p (parse_detail_page low search to_float float_true page))
       (parse_restaurant_card element category)"

text \<open>\<open>POIItem()\<close>: an item with no field set.\<close>

definition blank_item :: "'f item" where
  "blank_item =
     \<lparr>i_id = None, i_name = None, i_type = None, i_category_tags = None,
      i_neighborhood = None, i_price_range = None, i_halal = None, i_cuisine = None,
      i_interest_tags = None, i_coordinates = None, i_typical_duration_minutes = None,
      i_best_time_of_day = None, i_short_description = None, i_source_url = None,
      i_last_updated_ts = None\<rparr>"

section \<open>Sample inputs\<close>

text \<open>Concrete records and cards on which the properties below are evaluated.\<close>

definition sample_item :: "unit item" where
  "sample_item =
     blank_item\<lparr>i_id := Some (ascii ''004a0724212f''),
                 i_name := Some (ascii ''Sakura Festival''),
                 i_source_url := Some events_url\<rparr>"

definition sample_poi :: "unit poi" where
  "sample_poi =
     \<lparr>poi_id = ascii ''81cb09216ee9'', poi_name = ascii ''Sakura Festival'',
      poi_type = ascii ''event_venue'', category_tags = [ascii ''Festival''],
      neighborhood = ascii ''Shinjuku'', price_range = None, halal = ascii ''unknown'',
      cuisine = None, interest_tags = [ascii ''Festival''], coordinates = null_coords,
      typical_duration_minutes = 180, best_time_of_day = None,
      short_description = ascii ''A beautiful cherry blossom festival'',
      source_url = ascii ''https://www.gotokyo.org/en/event/sakura.html'',
      last_updated_ts = ascii ''2025-04-01T09:00:00''\<rparr>"

definition sample_restaurant_card :: restaurant_card where
  "sample_restaurant_card =
     \<lparr>rc_name = Some (ascii ''AB'', ascii ''https://tabelog.com/en/tokyo/A1301/A130101/13000001/''),
      rc_joined = ascii ''https://tabelog.com/en/tokyo/A1301/A130101/13000001/'',
      rc_rating_ge_35 = False, rc_rating_ge_37 = False,
      rc_price = None, rc_area = None, rc_catch = None,
      rc_now = ascii ''2025-04-01T09:00:00''\<rparr>"

definition sample_spider_card :: spider_card where
  "sample_spider_card =
     \<lparr>sc_href = Some (ascii ''/en/event/sakura.html''),
      sc_url = ascii ''https://www.gotokyo.org/en/event/sakura.html'',
      sc_names = [[], [ascii ''Sakura Festival'']],
      sc_descs = [[ascii ''A beautiful cherry blossom festival'']],
      sc_dates = [], sc_locations = [], sc_tags = []\<rparr>"

text \<open>
  A stand-in for \<open>re.search\<close> that knows two map links, and cards that carry them. In
  the evaluations a float is written as the text it is parsed from.
\<close>

definition sample_search :: re_search where
  "sample_search pat s =
     (if pat = MapLinkCoords \<and> s = ascii ''https://www.google.com/maps/@35.6895,139.6917,15z''
        then Some [ascii ''35.6895'', ascii ''139.6917'']
      else if pat = MapQuery \<and> s = ascii ''https://maps.google.com/maps?q=35.6581,139.7017''
        then Some [ascii ''35.6581'', ascii ''139.7017'']
      else None)"

definition sample_event_card :: event_card where
  "sample_event_card =
     \<lparr>card_link = Some (ascii ''https://www.gotokyo.org/en/event/sakura.html''),
      card_name = ascii ''Sakura Festival'',
      card_desc = Some (ascii ''A beautiful cherry blossom festival''),
      card_date = Some (ascii ''April, evening illumination''),
      card_location = Some (ascii ''Shinjuku''),
      card_tags = [],
      card_detail = Some \<lparr>map_hrefs = [ascii ''https://www.google.com/maps/@35.6895,139.6917,15z''],
                          script_strings = []\<rparr>,
      card_now = ascii ''2025-04-01T09:00:00''\<rparr>"

definition sample_detail_raw :: detail_raw where
  "sample_detail_raw =
     \<lparr>dp_rows = [], dp_scripts = [None],
      dp_map_link = Some (ascii ''https://maps.google.com/maps?q=35.6581,139.7017''),
      dp_pr_comment = None\<rparr>"

definition sample_detail_response :: detail_response where
  "sample_detail_response =
     \<lparr>dr_page = \<lparr>map_hrefs = [ascii ''https://www.google.com/maps/@35.6895,139.6917,15z''],
                  script_strings = []\<rparr>,
      dr_descs = []\<rparr>"

text \<open>
  Two pages that show the same event, the second one reached through a pagination link;
  and a card whose text fires no category rule but the family rule.
\<close>

definition page2_url :: pystr where
  "page2_url = ascii ''https://www.gotokyo.org/en/spot/index.html?page=2''"

definition sample_pages :: "pystr \<Rightarrow> unit poi list" where
  "sample_pages url =
     (if url = events_url then [sample_poi]
      else if url = page2_url then [sample_poi\<lparr>last_updated_ts := ascii ''2025-04-01T09:00:07''\<rparr>]
      else [])"

definition family_card :: event_card where
  "family_card =
     \<lparr>card_link = Some (ascii ''https://www.gotokyo.org/en/event/family-day.html''),
      card_name = ascii ''Family Day Out'',
      card_desc = Some (ascii ''Fun for all ages''),
      card_date = None,
      card_location = None,
      card_tags = [],
      card_detail = None,
      card_now = ascii ''2025-04-01T09:00:00''\<rparr>"

text \<open>A list item with a price: \<open>Sushi Saito\<close>, dinner for 30,000 to 39,999 yen.\<close>

definition sushi_card :: restaurant_card where
  "sushi_card =
     \<lparr>rc_name = Some (ascii ''Sushi Saito'', ascii ''https://tabelog.com/en/tokyo/A1307/A130701/13015251/''),
      rc_joined = ascii ''https://tabelog.com/en/tokyo/A1307/A130701/13015251/'',
      rc_rating_ge_35 = True, rc_rating_ge_37 = True,
      rc_price = Some (165 # ascii ''30,000~'' @ 165 # ascii ''39,999''),
      rc_area = Some (ascii ''Roppongi / Sushi''), rc_catch = None,
      rc_now = ascii ''2025-04-01T09:00:00''\<rparr>"

section \<open>Properties of price parsing\<close>

lemma parse_price_boundaries:
  "parse_price (ascii ''999'') = Some 1"
  "parse_price (ascii ''1,000'') = Some 2"
  "parse_price (ascii ''3,999'') = Some 2"
  "parse_price (ascii ''4,000'') = Some 3"
  "parse_price (ascii ''9,999'') = Some 3"
  "parse_price (ascii ''10,000'') = Some 4"
  by (simp_all add: parse_price_def price_char_def clean_price_def remove_char_def py_int_def
      is_digit_def digits_value_def price_tier_def)

lemma parse_price_no_number:
  "findall_runs price_char s = [] \<Longrightarrow> parse_price s = None"
  by (simp add: parse_price_def)

lemma findall_runs_elems: "r \<in> set (findall_runs P s) \<Longrightarrow> r \<noteq> [] \<and> list_all P r"
proof (induction P s rule: findall_runs.induct)
  case (1 P)
  then show ?case by simp
next
  case (2 P c cs)
  show ?case
  proof (cases "P c")
    case True
    with "2.prems" consider "r = c # takeWhile P cs" | "r \<in> set (findall_runs P (dropWhile P cs))"
      by auto
    then show ?thesis
    proof cases
      case 1
      with True show ?thesis by (auto simp: list_all_iff dest: set_takeWhileD)
    next
      case 2
      with True "2.IH"(1) show ?thesis by simp
    qed
  next
    case False
    with "2.prems" "2.IH"(2) show ?thesis by simp
  qed
qed

lemma clean_price_digits: "list_all price_char p \<Longrightarrow> list_all is_digit (clean_price p)"
  by (auto simp: list_all_iff clean_price_def remove_char_def price_char_def is_digit_def)

lemma clean_price_nonempty:
  assumes "list_ex is_digit p"
  shows "clean_price p \<noteq> []"
proof -
  from assms obtain x where x: "x \<in> set p" "is_digit x" by (auto simp: list_ex_iff)
  then have "x \<in> set (clean_price p)"
    by (simp add: clean_price_def remove_char_def is_digit_def)
  then show ?thesis by auto
qed

lemma clean_price_empty:
  assumes "list_all price_char p" and "\<not> list_ex is_digit p"
  shows "clean_price p = []"
proof -
  have "\<forall>x \<in> set p. x = 165 \<or> x = 65509 \<or> x = 44"
    using assms by (auto simp: list_all_iff list_ex_iff price_char_def is_digit_def)
  then show ?thesis
    by (auto simp: clean_price_def remove_char_def filter_empty_conv)
qed

lemma max_price_value:
  assumes "\<forall>p \<in> set ps. list_all price_char p \<and> list_ex is_digit p"
  shows "max_price ps m = Inr (foldl max m (map (\<lambda>p. digits_value (clean_price p)) ps))"
  using assms
proof (induction ps arbitrary: m)
  case Nil
  show ?case by simp
next
  case (Cons p ps)
  then have "py_int (clean_price p) = Inr (digits_value (clean_price p))"
    by (simp add: py_int_def clean_price_digits clean_price_nonempty)
  moreover have "(if digits_value (clean_price p) > m then digits_value (clean_price p) else m)
      = max m (digits_value (clean_price p))" by (simp add: max_def)
  ultimately show ?case using Cons by simp
qed

lemma max_price_error:
  assumes "\<forall>p \<in> set ps. list_all price_char p" and "\<exists>p \<in> set ps. \<not> list_ex is_digit p"
  shows "max_price ps m = Inl ValueError"
  using assms
proof (induction ps arbitrary: m)
  case Nil
  then show ?case by simp
next
  case (Cons p ps)
  show ?case
  proof (cases "list_ex is_digit p")
    case True
    with Cons.prems have "py_int (clean_price p) = Inr (digits_value (clean_price p))"
      by (simp add: py_int_def clean_price_digits clean_price_nonempty)
    moreover from True Cons.prems have "\<exists>p \<in> set ps. \<not> list_ex is_digit p" by auto
    ultimately show ?thesis using Cons by simp
  next
    case False
    with Cons.prems have "clean_price p = []" by (simp add: clean_price_empty)
    then show ?thesis by (simp add: py_int_def)
  qed
qed

lemma findall_runs_price_chars: "\<forall>p \<in> set (findall_runs price_char s). list_all price_char p"
  by (auto dest: findall_runs_elems)

lemma parse_price_max:
  assumes "findall_runs price_char s \<noteq> []"
    and "\<forall>p \<in> set (findall_runs price_char s). list_ex is_digit p"
  shows "parse_price s =
           price_tier (foldl max 0 (map (\<lambda>p. digits_value (clean_price p)) (findall_runs price_char s)))"
proof -
  from assms(1) have s: "s \<noteq> []" by auto
  have "\<forall>p \<in> set (findall_runs price_char s). list_all price_char p \<and> list_ex is_digit p"
    using assms(2) findall_runs_price_chars [of s] by simp
  from max_price_value [OF this, of 0] s assms(1) show ?thesis
    by (simp add: parse_price_def Let_def)
qed

lemma parse_price_separator_only:
  assumes "\<exists>p \<in> set (findall_runs price_char s). \<not> list_ex is_digit p"
  shows "parse_price s = None"
proof -
  have "max_price (findall_runs price_char s) 0 = Inl ValueError"
    using findall_runs_price_chars [of s] assms by (rule max_price_error)
  then show ?thesis by (simp add: parse_price_def Let_def)
qed

text \<open>
  C2. The price text \<open>Lunch, 999\<close> holds the number 999, yet \<open>parse_price\<close> returns
  \<open>None\<close>: the comma after \<open>Lunch\<close> is a match of the pattern on its own, nothing is left
  of it once the separators are removed, \<open>int('')\<close> raises, and the \<open>except\<close> clause returns
  \<open>None\<close> for the whole text.
\<close>

theorem parse_price_separator_run:
  "findall_runs price_char (ascii ''Lunch, 999'') = [ascii '','', ascii ''999''] \<and>
   py_int (clean_price (ascii '','')) = Inl ValueError \<and>
   parse_price (ascii ''Lunch, 999'') = None"
  by (simp add: parse_price_def price_char_def clean_price_def remove_char_def py_int_def
      is_digit_def digits_value_def price_tier_def)

section \<open>Properties of identity assignment\<close>

lemma length_bytes32: "length (bytes32 w) = 4"
  by (simp add: bytes32_def)

lemma length_md5: "length (md5 bs) = 16"
  by (simp add: md5_def Let_def length_bytes32 split: prod.splits)

lemma length_hexdigest: "length (hexdigest bs) = 2 * length bs"
  by (induction bs) (simp_all add: hexdigest_def)

lemma hex_char_is_hex: "n < 16 \<Longrightarrow> is_hex_char (hex_char n)"
  by (auto simp: is_hex_char_def hex_char_def)

lemma unat_byte_div: "unat (b :: byte) div 16 < 16"
proof -
  have "unat b < 256" using unsigned_less [of b] by simp
  then show ?thesis by simp
qed

lemma hexdigest_is_hex: "list_all is_hex_char (hexdigest bs)"
  by (induction bs) (simp_all add: hexdigest_def hex_char_is_hex unat_byte_div)

lemma poi_id_length: "length (take 12 (hexdigest (md5 bs))) = 12"
  by (simp add: length_hexdigest length_md5)

lemma poi_id_hex: "list_all is_hex_char (take 12 (hexdigest (md5 bs)))"
  using hexdigest_is_hex [of "md5 bs"] by (simp add: list_all_iff) (meson in_set_takeD)

lemma poi_id_nonempty: "take 12 (hexdigest (md5 bs)) \<noteq> []"
  using poi_id_length [of bs] by (metis length_0_conv zero_neq_numeral)

lemma hexdigest_md5_nonempty: "hexdigest (md5 bs) \<noteq> []"
  using poi_id_nonempty [of bs] by auto

text \<open>The digest of the RFC's test message \<open>abc\<close>, and of the events page's URL.\<close>

lemma md5_abc:
  "md5 [0x61, 0x62, 0x63] =
     [0x90, 0x01, 0x50, 0x98, 0x3c, 0xd2, 0x4f, 0xb0, 0xd6, 0x96, 0x3f, 0x7d, 0x28, 0xe1, 0x7f, 0x72]"
  by code_simp

lemma events_url_bytes:
  "concat (map utf8_char events_url) =
     [104, 116, 116, 112, 115, 58, 47, 47, 119, 119, 119, 46, 103, 111, 116, 111, 107, 121, 111,
      46, 111, 114, 103, 47, 101, 110, 47, 115, 112, 111, 116, 47, 105, 110, 100, 101, 120, 46,
      104, 116, 109, 108]"
  by (simp add: events_url_def utf8_char_def)

lemma events_url_md5:
  "md5 [104, 116, 116, 112, 115, 58, 47, 47, 119, 119, 119, 46, 103, 111, 116, 111, 107, 121, 111,
        46, 111, 114, 103, 47, 101, 110, 47, 115, 112, 111, 116, 47, 105, 110, 100, 101, 120, 46,
        104, 116, 109, 108]
   = [0, 74, 7, 36, 33, 47, 181, 118, 223, 129, 22, 196, 27, 168, 183, 27]"
  by code_simp

lemma events_url_id:
  "take 12 (hexdigest (md5 (concat (map utf8_char events_url)))) = ascii ''004a0724212f''"
  by (simp add: events_url_bytes events_url_md5 hexdigest_def hex_char_def)

text \<open>
  C1. For a URL \<open>u\<close> and a name \<open>n\<close> that can be encoded (no surrogate code point), the id
  that \<open>generate_poi_id\<close> returns is the first twelve characters of the hexadecimal MD5 digest
  of the UTF-8 bytes of \<open>u\<close>; the normalization pipeline gives an item without an id the same
  prefix for its URL, or for its name when the URL is empty; and the id has twelve characters,
  all of them hexadecimal digits. The id is a function of the URL alone.
\<close>

theorem poi_id_is_md5_prefix:
  assumes "\<not> list_ex is_surrogate u" and "\<not> list_ex is_surrogate n"
  shows "generate_poi_id u = Inr (take 12 (hexdigest (md5 (concat (map utf8_char u))))) \<and>
         assign_id (it\<lparr>i_id := None, i_source_url := Some u, i_name := Some n\<rparr>) =
           Inr (it\<lparr>i_id := Some (take 12 (hexdigest (md5 (concat (map utf8_char (if u = [] then n else u)))))),
                   i_source_url := Some u, i_name := Some n\<rparr>) \<and>
         length (take 12 (hexdigest (md5 (concat (map utf8_char u))))) = 12 \<and>
         list_all is_hex_char (take 12 (hexdigest (md5 (concat (map utf8_char u)))))"
  using assms
  by (simp add: generate_poi_id_def utf8_encode_def assign_id_def truthy_str_def get_str_def
      length_hexdigest length_md5 poi_id_hex)

theorem poi_id_is_md5_prefix_witness:
  "\<not> list_ex is_surrogate events_url \<and> \<not> list_ex is_surrogate (ascii ''Spots'') \<and>
   generate_poi_id events_url = Inr (ascii ''004a0724212f'') \<and>
   assign_id ((blank_item :: unit item)\<lparr>i_id := None, i_source_url := Some events_url,
                                         i_name := Some (ascii ''Spots'')\<rparr>) =
     Inr (blank_item\<lparr>i_id := Some (ascii ''004a0724212f''), i_source_url := Some events_url,
                     i_name := Some (ascii ''Spots'')\<rparr>)"
proof -
  have a: "\<not> list_ex is_surrogate events_url" by (simp add: events_url_def is_surrogate_def)
  have b: "\<not> list_ex is_surrogate (ascii ''Spots'')" by (simp add: is_surrogate_def)
  have c: "events_url \<noteq> []" by (simp add: events_url_def)
  note t = poi_id_is_md5_prefix [OF a b, of blank_item]
  have g: "generate_poi_id events_url = Inr (ascii ''004a0724212f'')"
    using conjunct1 [OF t] by (simp only: events_url_id)
  have h: "assign_id ((blank_item :: unit item)\<lparr>i_id := None, i_source_url := Some events_url,
                                                 i_name := Some (ascii ''Spots'')\<rparr>) =
     Inr (blank_item\<lparr>i_id := Some (ascii ''004a0724212f''), i_source_url := Some events_url,
                     i_name := Some (ascii ''Spots'')\<rparr>)"
    using conjunct1 [OF conjunct2 [OF t]] c by (simp only: events_url_id if_False)
  show ?thesis using a b g h by (intro conjI)
qed

section \<open>Properties of validation\<close>

lemmas eval_str = strip_def isspace_def startswith_def endswith_def any_in_def ascii_lower_def
  spaced_def truthy_str_def get_str_def

lemmas eval_pipeline = crawl_export_def process_item_chain_def ValidationPipeline_process_item_def
  POINormalizationPipeline_process_item_def assign_id_def ensure_type_def poi_types_def
  clean_tags_def set_defaults_def set_duration_def tag_list_def
  FieldOrderPipeline_process_item_def JSONExportPipeline_process_item_def

lemmas eval_spider = spider_yield_def spider_parse_event_card_def spider_item_def
  first_selection_def take_first_def spider_category_tags_def card_category_tags_def
  explicit_tags_def infer_tags_def card_interest_tags_def situational_tags_def best_time_def
  morning_words_def afternoon_words_def evening_words_def spider_description_def spider_event_date_def
  parse_event_detail_def spider_extract_coordinates_def clean_description_def
  generate_poi_id_def utf8_encode_def is_surrogate_def

lemma chain_drops:
  assumes "\<not> truthy_str (i_id it) \<or> \<not> truthy_str (i_name it) \<or> \<not> truthy_str (i_type it) \<or>
           length (strip (get_str (i_name it) [])) < 3"
  shows "process_item_chain low exported (it, now) = exported"
  using assms by (auto simp: process_item_chain_def ValidationPipeline_process_item_def)

lemma filter_page_append:
  "filter_page st (xs @ ys) = filter_page (filter_page st xs) ys"
  by (induction st xs rule: filter_page.induct) simp_all

lemma filter_page_short:
  "length (poi_name e) < 3 \<Longrightarrow> filter_page st [e] = st"
  by (cases st) (simp add: keep_event_def)

lemma sample_item_exported:
  "crawl_export ascii_lower
     [(sample_item\<lparr>i_type := Some (ascii ''event_venue'')\<rparr>, ascii ''2025-04-01T09:00:00'')] =
     [sample_item\<lparr>i_type := Some (ascii ''event_venue''),
                  i_neighborhood := Some (ascii ''Tokyo''), i_halal := Some (ascii ''unknown''),
                  i_coordinates := Some null_coords, i_typical_duration_minutes := Some 90,
                  i_last_updated_ts := Some (ascii ''2025-04-01T09:00:00'')\<rparr>]"
  by (simp add: crawl_export_def process_item_chain_def ValidationPipeline_process_item_def
      POINormalizationPipeline_process_item_def assign_id_def ensure_type_def poi_types_def
      clean_tags_def set_defaults_def set_duration_def tag_list_def
      FieldOrderPipeline_process_item_def JSONExportPipeline_process_item_def
      sample_item_def blank_item_def eval_str)

text \<open>
  C3, as stated, fails on restaurant records: \<open>TabelogScraper\<close> has no validation step, and a
  list item whose name is \<open>AB\<close> becomes a record of the output.
\<close>

theorem restaurant_short_name_emitted:
  "map_option poi_name
     (map_option (\<lambda>p. apply_details p None)
        (parse_restaurant_card sample_restaurant_card (ascii ''Sushi'') :: unit poi option)) =
     Some (ascii ''AB'') \<and>
   length (strip (ascii ''AB'')) < 3"
  by (simp add: parse_restaurant_card_def restaurant_poi_def sample_restaurant_card_def
      generate_poi_id_def utf8_encode_def is_surrogate_def clean_text_def apply_details_def
      eval_str Let_def)

text \<open>
  C3, amended. In the crawl, an item whose id, name or type is unset or empty, or whose
  stripped name is shorter than 3, is dropped: the export is what it would be without the
  item, so the items around it are processed as before. In the first pass of the standalone
  scraper an event whose name is shorter than 3 is left out of the batch in the same way.
  The spider builds no item from a card whose name is shorter than 3.
\<close>

theorem invalid_records_dropped:
  "(\<not> truthy_str (i_id it) \<or> \<not> truthy_str (i_name it) \<or> \<not> truthy_str (i_type it) \<or>
      length (strip (get_str (i_name it) [])) < 3
     \<longrightarrow> crawl_export low (before @ [(it, now)] @ after) = crawl_export low (before @ after)) \<and>
   (length (poi_name e) < 3
     \<longrightarrow> filter_page st (es1 @ [e] @ es2) = filter_page st (es1 @ es2)) \<and>
   (first_selection (sc_names element) = Some name \<and> length name < 3
     \<longrightarrow> (spider_parse_event_card low element :: 'f item option) = None)"
proof (intro conjI impI)
  assume "\<not> truthy_str (i_id it) \<or> \<not> truthy_str (i_name it) \<or> \<not> truthy_str (i_type it) \<or>
      length (strip (get_str (i_name it) [])) < 3"
  then show "crawl_export low (before @ [(it, now)] @ after) = crawl_export low (before @ after)"
    by (simp add: crawl_export_def chain_drops)
next
  assume "length (poi_name e) < 3"
  then show "filter_page st (es1 @ [e] @ es2) = filter_page st (es1 @ es2)"
    by (simp only: filter_page_append filter_page_short)
next
  assume "first_selection (sc_names element) = Some name \<and> length name < 3"
  then show "(spider_parse_event_card low element :: 'f item option) = None"
    by (simp add: spider_parse_event_card_def split: option.splits sum.splits)
qed

theorem invalid_records_dropped_witness:
  "length (strip (get_str (i_name (sample_item\<lparr>i_name := Some (ascii '' AB '')\<rparr>)) [])) < 3 \<and>
   crawl_export ascii_lower
     ([] @ [(sample_item\<lparr>i_name := Some (ascii '' AB '')\<rparr>, ascii ''2025-04-01T08:59:00'')] @
      [(sample_item\<lparr>i_type := Some (ascii ''event_venue'')\<rparr>, ascii ''2025-04-01T09:00:00'')]) =
     [sample_item\<lparr>i_type := Some (ascii ''event_venue''),
                  i_neighborhood := Some (ascii ''Tokyo''), i_halal := Some (ascii ''unknown''),
                  i_coordinates := Some null_coords, i_typical_duration_minutes := Some 90,
                  i_last_updated_ts := Some (ascii ''2025-04-01T09:00:00'')\<rparr>] \<and>
   length (poi_name (sample_poi\<lparr>poi_name := ascii ''AB''\<rparr>)) < 3 \<and>
   filter_page ([], []) ([] @ [sample_poi\<lparr>poi_name := ascii ''AB''\<rparr>] @ [sample_poi]) =
     ([sample_poi], [source_url sample_poi]) \<and>
   first_selection (sc_names (sample_spider_card\<lparr>sc_names := [[ascii ''AB'']]\<rparr>)) = Some (ascii ''AB'') \<and>
   (spider_parse_event_card ascii_lower (sample_spider_card\<lparr>sc_names := [[ascii ''AB'']]\<rparr>)
      :: unit item option) = None"
proof -
  let ?bad = "sample_item\<lparr>i_name := Some (ascii '' AB '')\<rparr>"
  let ?good = "sample_item\<lparr>i_type := Some (ascii ''event_venue'')\<rparr>"
  let ?e = "sample_poi\<lparr>poi_name := ascii ''AB''\<rparr>"
  let ?el = "sample_spider_card\<lparr>sc_names := [[ascii ''AB'']]\<rparr>"
  note t = invalid_records_dropped [of ?bad ascii_lower "[]" "ascii ''2025-04-01T08:59:00''"
      "[(?good, ascii ''2025-04-01T09:00:00'')]" ?e "([], [])" "[]" "[sample_poi]" ?el "ascii ''AB''"]
  have h1: "length (strip (get_str (i_name ?bad) [])) < 3"
    by (simp add: sample_item_def blank_item_def eval_str)
  have h2: "length (poi_name ?e) < 3" by simp
  have h3: "first_selection (sc_names ?el) = Some (ascii ''AB'')"
    by (simp add: first_selection_def eval_str)
  have c1: "crawl_export ascii_lower
              ([] @ [(?bad, ascii ''2025-04-01T08:59:00'')] @ [(?good, ascii ''2025-04-01T09:00:00'')])
        = crawl_export ascii_lower ([] @ [(?good, ascii ''2025-04-01T09:00:00'')])"
    using conjunct1 [OF t] h1 by blast
  have c2: "filter_page ([], []) ([] @ [?e] @ [sample_poi]) = filter_page ([], []) ([] @ [sample_poi])"
    using conjunct1 [OF conjunct2 [OF t]] h2 by blast
  have c3: "(spider_parse_event_card ascii_lower ?el :: unit item option) = None"
    using conjunct2 [OF conjunct2 [OF t]] h3 by simp
  have k: "filter_page ([], []) ([] @ [sample_poi]) = ([sample_poi], [source_url sample_poi])"
    by (simp add: keep_event_def sample_poi_def endswith_def)
  show ?thesis
    using h1 h2 h3 c1 c2 c3 k sample_item_exported by simp
qed

section \<open>Properties of coordinates\<close>

lemma parse_event_card_SomeD:
  "parse_event_card low title search to_float el = Some p \<Longrightarrow>
     \<exists>url i. card_link el = Some url \<and> generate_poi_id url = Inr i \<and>
             p = event_poi low title search to_float el url i"
  by (auto simp: parse_event_card_def split: option.splits sum.splits)

lemma spider_parse_event_card_SomeD:
  "spider_parse_event_card low el = Some it \<Longrightarrow>
     \<exists>pid name. generate_poi_id (sc_url el) = Inr pid \<and> first_selection (sc_names el) = Some name \<and>
                3 \<le> length name \<and> it = spider_item low el pid name"
  by (auto simp: spider_parse_event_card_def split: option.splits sum.splits if_splits)

lemma parse_restaurant_card_SomeD:
  "parse_restaurant_card el cat = Some p \<Longrightarrow>
     \<exists>name_text url i. p = restaurant_poi el cat name_text url i"
  by (auto simp: parse_restaurant_card_def Let_def split: option.splits sum.splits prod.splits)

lemma paired_null: "paired null_coords" by (simp add: paired_def null_coords_def)

lemma coords_of_groups_paired:
  "coords_of_groups to_float m i n j = Inr c \<Longrightarrow> paired c"
  by (auto simp: coords_of_groups_def paired_def split: sum.splits)

lemma first_coords_paired:
  "first_coords search to_float pat ss = Inr (Some c) \<Longrightarrow> paired c"
  by (induction ss) (auto split: option.splits sum.splits dest: coords_of_groups_paired)

lemma extract_coordinates_paired: "paired (extract_coordinates search to_float page)"
  by (auto simp: extract_coordinates_def paired_null split: option.splits sum.splits
      dest: first_coords_paired)

lemma spider_extract_coordinates_paired:
  "spider_extract_coordinates search to_float pg = Some c \<Longrightarrow> paired c"
  by (auto simp: spider_extract_coordinates_def split: option.splits sum.splits
      dest: first_coords_paired)

lemma script_lat_lon_paired:
  "script_lat_lon search to_float ss = Inr (Some c) \<Longrightarrow> paired c"
  by (induction ss) (auto split: option.splits sum.splits dest: coords_of_groups_paired)

lemma get_lat_lon_paired:
  "get_lat_lon search to_float scripts map_link = Inr c \<Longrightarrow> paired c"
  by (auto simp: get_lat_lon_def paired_null split: option.splits sum.splits
      dest: script_lat_lon_paired coords_of_groups_paired)

lemma event_poi_coords:
  "coordinates (event_poi low title search to_float el url i) =
     extract_coordinates search to_float (card_detail el)"
  by (simp add: event_poi_def Let_def)

lemma restaurant_poi_coords: "coordinates (restaurant_poi el cat n u i) = null_coords"
  by (simp add: restaurant_poi_def Let_def)

lemma info_row_coords: "d_coordinates (info_row low d row) = d_coordinates d"
  by (simp add: info_row_def Let_def)

lemma info_rows_coords: "d_coordinates (foldl (info_row low) d rows) = d_coordinates d"
  by (induction rows arbitrary: d) (simp_all add: info_row_coords)

lemma parse_detail_page_coords:
  assumes "parse_detail_page low search to_float float_true page = Some d"
    and "d_coordinates d = Some c"
  shows "paired c"
proof -
  from assms(1) obtain pg coords where pg: "page = Some pg"
    and g: "get_lat_lon search to_float (dp_scripts pg) (dp_map_link pg) = Inr coords"
    by (auto simp: parse_detail_page_def Let_def split: option.splits sum.splits)
  from assms(1) pg g have "d_coordinates d = None \<or> d_coordinates d = Some coords"
    by (auto simp: parse_detail_page_def Let_def info_rows_coords split: option.splits if_splits)
  with assms(2) have "c = coords" by simp
  then show ?thesis using get_lat_lon_paired [OF g] by simp
qed

lemma apply_details_coords:
  "coordinates (apply_details p details) =
     (case details of None \<Rightarrow> coordinates p
      | Some d \<Rightarrow> (case d_coordinates d of None \<Rightarrow> coordinates p | Some c \<Rightarrow> c))"
  by (simp add: apply_details_def Let_def split: option.splits)

lemma scrape_restaurant_paired:
  assumes "scrape_restaurant low search to_float float_true el cat page = Some p"
  shows "paired (coordinates p)"
proof -
  from assms obtain p0 where p0: "parse_restaurant_card el cat = Some p0"
    and p: "p = apply_details p0 (parse_detail_page low search to_float float_true page)"
    by (auto simp: scrape_restaurant_def)
  from parse_restaurant_card_SomeD [OF p0] have n: "coordinates p0 = null_coords"
    by (auto simp: restaurant_poi_coords)
  show ?thesis
  proof (cases "parse_detail_page low search to_float float_true page")
    case None
    then show ?thesis using p n by (simp add: apply_details_coords paired_null)
  next
    case (Some d)
    then show ?thesis using p n parse_detail_page_coords [OF Some]
      by (cases "d_coordinates d") (simp_all add: apply_details_coords paired_null)
  qed
qed

lemma spider_item_no_coords: "i_coordinates (spider_item low el pid name) = None"
  by (simp add: spider_item_def Let_def)

lemma parse_event_detail_coords:
  "i_coordinates (parse_event_detail search to_float r it) =
     (case spider_extract_coordinates search to_float (dr_page r) of None \<Rightarrow> i_coordinates it | Some c \<Rightarrow> Some c)"
  by (simp add: parse_event_detail_def Let_def split: option.splits)

lemma spider_yield_coords:
  assumes "spider_yield low search to_float url el detail = Some it" and "i_coordinates it = Some c"
  shows "paired c"
proof -
  from assms(1) obtain it0 where it0: "spider_parse_event_card low el = Some it0"
    and it: "it = it0 \<or> (\<exists>r. it = parse_event_detail search to_float r it0)"
    by (auto simp: spider_yield_def split: option.splits if_splits)
  from spider_parse_event_card_SomeD [OF it0] have n: "i_coordinates it0 = None"
    by (auto simp: spider_item_no_coords)
  from it assms(2) n have "\<exists>pg. spider_extract_coordinates search to_float pg = Some c"
    by (auto simp: parse_event_detail_coords split: option.splits)
  then show ?thesis by (auto dest: spider_extract_coordinates_paired)
qed

lemma assign_id_coords: "assign_id it = Inr it' \<Longrightarrow> i_coordinates it' = i_coordinates it"
  by (auto simp: assign_id_def Let_def split: if_splits sum.splits)

lemma ensure_type_coords: "i_coordinates (ensure_type low it) = i_coordinates it"
  by (simp add: ensure_type_def Let_def)

lemma set_defaults_coords:
  "i_coordinates (set_defaults it) = Some (case i_coordinates it of Some c \<Rightarrow> c | None \<Rightarrow> null_coords)"
  by (simp add: set_defaults_def)

lemma set_duration_coords: "i_coordinates (set_duration low it) = i_coordinates it"
  by (simp add: set_duration_def split: option.splits)

lemma normalization_coords:
  assumes "POINormalizationPipeline_process_item low now it = Inr out"
  shows "i_coordinates out = Some (case i_coordinates it of Some c \<Rightarrow> c | None \<Rightarrow> null_coords)"
proof -
  from assms obtain it1 where a: "assign_id it = Inr it1"
    by (auto simp: POINormalizationPipeline_process_item_def split: sum.splits)
  with assms show ?thesis
    by (auto simp: POINormalizationPipeline_process_item_def Let_def set_duration_coords
        set_defaults_coords ensure_type_coords assign_id_coords [OF a])
qed

lemma chain_cases:
  "process_item_chain low ex (it, now) = ex \<or>
   (\<exists>out. POINormalizationPipeline_process_item low now it = Inr out \<and>
          ValidationPipeline_process_item it = Some it \<and>
          process_item_chain low ex (it, now) = ex @ [out])"
  by (auto simp: process_item_chain_def ValidationPipeline_process_item_def
      FieldOrderPipeline_process_item_def JSONExportPipeline_process_item_def
      split: option.splits sum.splits)

text \<open>
  C4. On every path the coordinates of a record are paired: the result of
  \<open>extract_coordinates\<close>, the coordinates of every record that \<open>parse_event_card\<close> builds,
  those of every restaurant record after its detail page has been merged in, and those of
  every item the crawl exports for an item the spider yields.
\<close>

theorem coordinates_paired:
  "paired (extract_coordinates search to_float page) \<and>
   (parse_event_card low title search to_float element = Some p \<longrightarrow> paired (coordinates p)) \<and>
   (scrape_restaurant low search to_float float_true list_item category detail_page = Some r
      \<longrightarrow> paired (coordinates r)) \<and>
   (spider_yield low search to_float response_url spider_element detail = Some it
      \<longrightarrow> (\<forall>out \<in> set (crawl_export low [(it, now)]). \<exists>c. i_coordinates out = Some c \<and> paired c))"
proof (intro conjI impI ballI)
  show "paired (extract_coordinates search to_float page)" by (rule extract_coordinates_paired)
next
  assume "parse_event_card low title search to_float element = Some p"
  from parse_event_card_SomeD [OF this] show "paired (coordinates p)"
    by (auto simp: event_poi_coords extract_coordinates_paired)
next
  assume "scrape_restaurant low search to_float float_true list_item category detail_page = Some r"
  then show "paired (coordinates r)" by (rule scrape_restaurant_paired)
next
  fix out
  assume y: "spider_yield low search to_float response_url spider_element detail = Some it"
    and o: "out \<in> set (crawl_export low [(it, now)])"
  from chain_cases [of low "[]" it now] o
  have n: "POINormalizationPipeline_process_item low now it = Inr out"
    by (auto simp: crawl_export_def)
  show "\<exists>c. i_coordinates out = Some c \<and> paired c"
  proof (cases "i_coordinates it")
    case None
    then show ?thesis using normalization_coords [OF n] by (simp add: paired_null)
  next
    case (Some c)
    then show ?thesis using normalization_coords [OF n] spider_yield_coords [OF y Some] by simp
  qed
qed

lemma of_char_lt_256: "(of_char c :: nat) < 256"
proof -
  have "(of_char c :: nat) mod 256 < 256" by simp
  then show ?thesis by (simp only: of_char_mod_256)
qed

lemma no_surrogate_ascii: "\<not> list_ex is_surrogate (ascii s)"
proof (induction s)
  case Nil
  show ?case by simp
next
  case (Cons c s)
  have "\<not> is_surrogate (of_char c)"
    using of_char_lt_256 [of c] unfolding is_surrogate_def by linarith
  with Cons show ?case by simp
qed

lemma generate_poi_id_ascii:
  "generate_poi_id (ascii s) = Inr (take 12 (hexdigest (md5 (concat (map utf8_char (ascii s))))))"
  using no_surrogate_ascii [of s] by (simp add: generate_poi_id_def utf8_encode_def)

lemma sample_event_card_parsed:
  "parse_event_card low title search to_float sample_event_card =
     Some (event_poi low title search to_float sample_event_card
             (ascii ''https://www.gotokyo.org/en/event/sakura.html'')
             (take 12 (hexdigest (md5 (concat (map utf8_char (ascii ''https://www.gotokyo.org/en/event/sakura.html'')))))))"
  by (simp only: parse_event_card_def sample_event_card_def event_card.simps option.case
      generate_poi_id_ascii sum.case)

lemma sample_extract:
  "extract_coordinates sample_search Some (card_detail sample_event_card) =
     \<lparr>lat = Some (ascii ''35.6895''), lon = Some (ascii ''139.6917'')\<rparr>"
  by (simp add: extract_coordinates_def sample_event_card_def sample_search_def
      coords_of_groups_def group_def py_float_def)

theorem coordinates_paired_witness:
  "map_option coordinates (parse_event_card ascii_lower (\<lambda>s. s) sample_search Some sample_event_card) =
     Some \<lparr>lat = Some (ascii ''35.6895''), lon = Some (ascii ''139.6917'')\<rparr> \<and>
   paired \<lparr>lat = Some (ascii ''35.6895''), lon = Some (ascii ''139.6917'')\<rparr> \<and>
   map_option coordinates
     (scrape_restaurant ascii_lower sample_search Some (\<lambda>x. True) sample_restaurant_card
        (ascii ''Sushi'') (Some sample_detail_raw)) =
     Some \<lparr>lat = Some (ascii ''35.6581''), lon = Some (ascii ''139.7017'')\<rparr> \<and>
   paired \<lparr>lat = Some (ascii ''35.6581''), lon = Some (ascii ''139.7017'')\<rparr> \<and>
   map i_coordinates
     (crawl_export ascii_lower
        (case spider_yield ascii_lower sample_search Some
                (ascii ''https://www.gotokyo.org/en/event/index.html'')
                sample_spider_card (Some sample_detail_response) :: pystr item option of
           None \<Rightarrow> []
         | Some it \<Rightarrow> [(it, ascii ''2025-04-01T09:00:00'')])) =
     [Some \<lparr>lat = Some (ascii ''35.6895''), lon = Some (ascii ''139.6917'')\<rparr>]"
proof -
  let ?p = "event_poi ascii_lower (\<lambda>s. s) sample_search Some sample_event_card
             (ascii ''https://www.gotokyo.org/en/event/sakura.html'')
             (take 12 (hexdigest (md5 (concat (map utf8_char (ascii ''https://www.gotokyo.org/en/event/sakura.html''))))))"
  have e: "parse_event_card ascii_lower (\<lambda>s. s) sample_search Some sample_event_card = Some ?p"
    by (rule sample_event_card_parsed)
  have ec: "coordinates ?p = \<lparr>lat = Some (ascii ''35.6895''), lon = Some (ascii ''139.6917'')\<rparr>"
    by (simp only: event_poi_coords sample_extract)
  obtain r where r: "scrape_restaurant ascii_lower sample_search Some (\<lambda>x. True) sample_restaurant_card
        (ascii ''Sushi'') (Some sample_detail_raw) = Some r"
    and rc: "coordinates r = \<lparr>lat = Some (ascii ''35.6581''), lon = Some (ascii ''139.7017'')\<rparr>"
  proof -
    have "\<exists>r. scrape_restaurant ascii_lower sample_search Some (\<lambda>x. True) sample_restaurant_card
        (ascii ''Sushi'') (Some sample_detail_raw) = Some r \<and>
        coordinates r = \<lparr>lat = Some (ascii ''35.6581''), lon = Some (ascii ''139.7017'')\<rparr>"
      by (simp add: scrape_restaurant_def parse_restaurant_card_def sample_restaurant_card_def
          generate_poi_id_def utf8_encode_def is_surrogate_def startswith_def
          apply_details_coords parse_detail_page_def sample_detail_raw_def get_lat_lon_def
          nonempty_strings_def List.map_filter_simps sample_search_def coords_of_groups_def
          group_def py_float_def Let_def)
    then show ?thesis using that by blast
  qed
  note t = coordinates_paired [of sample_search Some "card_detail sample_event_card" ascii_lower "\<lambda>s. s"
      sample_event_card ?p "\<lambda>x. True" sample_restaurant_card "ascii ''Sushi''" "Some sample_detail_raw" r]
  have p1: "paired (coordinates ?p)" using conjunct1 [OF conjunct2 [OF t]] e by blast
  have p2: "paired (coordinates r)" using conjunct1 [OF conjunct2 [OF conjunct2 [OF t]]] r by blast
  have s: "map i_coordinates
     (crawl_export ascii_lower
        (case spider_yield ascii_lower sample_search Some
                (ascii ''https://www.gotokyo.org/en/event/index.html'')
                sample_spider_card (Some sample_detail_response) :: pystr item option of
           None \<Rightarrow> []
         | Some it \<Rightarrow> [(it, ascii ''2025-04-01T09:00:00'')])) =
     [Some \<lparr>lat = Some (ascii ''35.6895''), lon = Some (ascii ''139.6917'')\<rparr>]"
    by (simp add: eval_spider eval_pipeline eval_str sample_spider_card_def
        sample_detail_response_def sample_search_def poi_id_nonempty hexdigest_md5_nonempty
        Let_def coords_of_groups_def group_def py_float_def nonempty_strings_def)
  show ?thesis using e ec r rc p1 p2 s by simp
qed

section \<open>Properties of type defaulting\<close>








section \<open>Properties of tag inference\<close>

lemma event_poi_category_tags:
  "category_tags (event_poi low title search to_float el url i) =
     tag_set_or_event (card_category_tags low (strip (card_name el)) (event_description el)
        (card_tags el))"
  by (simp add: event_poi_def Let_def)

lemma event_poi_interest_tags:
  "interest_tags (event_poi low title search to_float el url i) =
     tag_set_or_event (card_interest_tags low (strip (card_name el)) (event_description el)
        (card_category_tags low (strip (card_name el)) (event_description el) (card_tags el)))"
  by (simp add: event_poi_def Let_def)

lemma infer_tags_rules:
  "(ascii ''Festival'' \<in> set (infer_tags t) \<longleftrightarrow> any_in [ascii ''festival'', ascii ''matsuri''] t) \<and>
   (ascii ''Exhibition'' \<in> set (infer_tags t) \<longleftrightarrow> any_in [ascii ''museum'', ascii ''exhibition'', ascii ''art''] t) \<and>
   (ascii ''Traditional'' \<in> set (infer_tags t) \<longleftrightarrow> any_in [ascii ''temple'', ascii ''shrine'', ascii ''traditional''] t) \<and>
   (ascii ''Food'' \<in> set (infer_tags t) \<longleftrightarrow> any_in [ascii ''food'', ascii ''market'', ascii ''culinary''] t) \<and>
   (ascii ''Music'' \<in> set (infer_tags t) \<longleftrightarrow> any_in [ascii ''music'', ascii ''concert'', ascii ''performance''] t) \<and>
   (ascii ''Seasonal'' \<in> set (infer_tags t) \<longleftrightarrow> any_in [ascii ''sakura'', ascii ''cherry'', ascii ''flower''] t)"
  by (simp add: infer_tags_def)

lemma standalone_category_tags:
  assumes "parse_event_card low title search to_float el = Some p"
    and "explicit_tags (card_tags el) = []"
  shows "set (category_tags p) =
           (if infer_tags (low (spaced (strip (card_name el)) (event_description el))) = []
            then {ascii ''Event''}
            else set (infer_tags (low (spaced (strip (card_name el)) (event_description el)))))"
proof -
  from parse_event_card_SomeD [OF assms(1)] obtain url i
    where "p = event_poi low title search to_float el url i" by blast
  with assms(2) show ?thesis
    by (simp add: event_poi_category_tags tag_set_or_event_def card_category_tags_def)
qed

lemma standalone_keeps_both_tags:
  "map_option (\<lambda>p. set (category_tags p))
     (parse_event_card ascii_lower title search to_float sample_event_card) =
     Some {ascii ''Festival'', ascii ''Seasonal''}"
proof -
  have c: "card_category_tags ascii_lower (strip (card_name sample_event_card))
             (event_description sample_event_card) (card_tags sample_event_card) =
           [ascii ''Festival'', ascii ''Seasonal'']"
    by (simp add: sample_event_card_def event_description_def card_category_tags_def
        explicit_tags_def infer_tags_def eval_str)
  show ?thesis
    unfolding sample_event_card_parsed option.map event_poi_category_tags c
    by (simp add: tag_set_or_event_def)
qed

lemma sakura_tags:
  "spider_category_tags ascii_lower (ascii ''Sakura Festival'') (ascii ''A beautiful cherry blossom festival'') [] =
     [ascii ''Festival'', ascii ''Seasonal'']"
  by (simp add: eval_spider eval_str)

lemma sample_spider_yield:
  "\<exists>it. spider_yield ascii_lower sample_search Some (ascii ''https://www.gotokyo.org/en/event/index.html'')
        sample_spider_card (Some sample_detail_response) = Some (it :: pystr item) \<and>
        i_category_tags it = Some (TagStr (ascii ''Festival'')) \<and>
        i_interest_tags it = Some (TagStr (ascii ''Festival'')) \<and>
        i_coordinates it = Some \<lparr>lat = Some (ascii ''35.6895''), lon = Some (ascii ''139.6917'')\<rparr>"
  by (simp add: eval_spider eval_str sample_spider_card_def sample_detail_response_def sample_search_def
      poi_id_nonempty Let_def coords_of_groups_def group_def py_float_def nonempty_strings_def)


text \<open>
  C5. A card named \<open>Sakura Festival\<close> with the description \<open>A beautiful cherry blossom
  festival\<close> and no tag markup fires the rules of \<open>Festival\<close> and of \<open>Seasonal\<close>, and the
  spider passes both tags to the loader. The loader's \<open>TakeFirst\<close> keeps the first value
  only, so the item that the crawl exports has the single tag \<open>Festival\<close>.
\<close>

theorem spider_keeps_first_tag_only:
  "spider_category_tags ascii_lower (ascii ''Sakura Festival'')
     (ascii ''A beautiful cherry blossom festival'') [] = [ascii ''Festival'', ascii ''Seasonal''] \<and>
   map i_category_tags
     (crawl_export ascii_lower
        (case spider_yield ascii_lower sample_search Some
                (ascii ''https://www.gotokyo.org/en/event/index.html'')
                sample_spider_card (Some sample_detail_response) :: pystr item option of
           None \<Rightarrow> []
         | Some it \<Rightarrow> [(it, ascii ''2025-04-01T09:00:00'')])) =
     [Some (TagList [ascii ''Festival''])]"
  by (simp add: eval_spider eval_pipeline eval_str sample_spider_card_def sample_detail_response_def
      sample_search_def poi_id_nonempty hexdigest_md5_nonempty Let_def coords_of_groups_def group_def py_float_def
      nonempty_strings_def)

section \<open>Properties of deduplication\<close>

lemma filter_page_invariant:
  assumes "filter_page (all_events, seen) page = (all_events', seen')"
    and "set seen = source_url ` set all_events" and "distinct (map source_url all_events)"
  shows "set seen' = source_url ` set all_events' \<and> distinct (map source_url all_events')"
  using assms
proof (induction page arbitrary: all_events seen)
  case Nil
  then show ?case by simp
next
  case (Cons e page)
  show ?case
  proof (cases "keep_event seen e")
    case True
    with Cons.prems have "source_url e \<notin> source_url ` set all_events"
      by (simp add: keep_event_def)
    with Cons.prems True show ?thesis
      by (intro Cons.IH [of "all_events @ [e]" "source_url e # seen"]) auto
  next
    case False
    with Cons.prems show ?thesis by (intro Cons.IH [of all_events seen]) auto
  qed
qed

lemma first_pass_invariant:
  assumes "foldl (\<lambda>st url. filter_page st (page_events url)) (all_events, seen) urls = (all_events', seen')"
    and "set seen = source_url ` set all_events" and "distinct (map source_url all_events)"
  shows "set seen' = source_url ` set all_events' \<and> distinct (map source_url all_events')"
  using assms
proof (induction urls arbitrary: all_events seen)
  case Nil
  then show ?case by simp
next
  case (Cons u urls)
  obtain a s where st: "filter_page (all_events, seen) (page_events u) = (a, s)"
    by (cases "filter_page (all_events, seen) (page_events u)")
  from filter_page_invariant [OF st Cons.prems(2,3)] Cons.prems(1) st
  show ?case by (intro Cons.IH [of a s]) simp_all
qed

lemma first_pass_distinct:
  "distinct (map source_url (scrape_all_events page_events None))"
proof -
  obtain a s where st: "foldl (\<lambda>st url. filter_page st (page_events url)) ([], []) urls_to_scrape = (a, s)"
    by (cases "foldl (\<lambda>st url. filter_page st (page_events url)) ([], []) urls_to_scrape")
  from first_pass_invariant [OF st] have "distinct (map source_url a)" by simp
  then show ?thesis by (simp add: scrape_all_events_def st)
qed

text \<open>
  C10. The events page and its second page both show the event \<open>Sakura Festival\<close>. The
  record of the second page is appended without a look at the URLs seen, and the batch
  holds two records with one id and one source URL. (Without additional pages the batch has
  distinct source URLs: \<open>first_pass_distinct\<close>.)
\<close>

theorem pagination_duplicates:
  "scrape_all_events sample_pages (Some [page2_url]) =
     [sample_poi, sample_poi\<lparr>last_updated_ts := ascii ''2025-04-01T09:00:07''\<rparr>] \<and>
   map poi_id (scrape_all_events sample_pages (Some [page2_url])) =
     [ascii ''81cb09216ee9'', ascii ''81cb09216ee9''] \<and>
   map source_url (scrape_all_events sample_pages (Some [page2_url])) =
     [ascii ''https://www.gotokyo.org/en/event/sakura.html'',
      ascii ''https://www.gotokyo.org/en/event/sakura.html'']"
  by (simp add: scrape_all_events_def urls_to_scrape_def sample_pages_def events_url_def
      page2_url_def keep_event_def sample_poi_def endswith_def)

section \<open>Properties of interest tags\<close>

lemma interest_superset_unless_sentinel:
  assumes "parse_event_card low title search to_float el = Some p"
    and "category_tags p \<noteq> [ascii ''Event'']"
  shows "set (category_tags p) \<subseteq> set (interest_tags p)"
proof -
  from parse_event_card_SomeD [OF assms(1)] obtain url i
    where p: "p = event_poi low title search to_float el url i" by blast
  let ?c = "card_category_tags low (strip (card_name el)) (event_description el) (card_tags el)"
  from assms(2) p have "?c \<noteq> []"
    by (auto simp: event_poi_category_tags tag_set_or_event_def)
  then show ?thesis
    unfolding p event_poi_category_tags event_poi_interest_tags
    by (auto simp: tag_set_or_event_def card_interest_tags_def)
qed

text \<open>
  C6. A card named \<open>Family Day Out\<close> with the description \<open>Fun for all ages\<close> and no tag
  markup fires no category rule, so \<open>category_tags\<close> becomes the sentinel \<open>Event\<close>; its
  \<open>interest_tags\<close> are built from the still empty list and hold \<open>Family Friendly\<close> only. The
  sentinel is not among them.
\<close>

theorem sentinel_missing_from_interest_tags:
  "map_option category_tags (parse_event_card ascii_lower title search to_float family_card) =
     Some [ascii ''Event''] \<and>
   map_option interest_tags (parse_event_card ascii_lower title search to_float family_card) =
     Some [ascii ''Family Friendly'']"
proof -
  let ?i = "take 12 (hexdigest (md5 (concat (map utf8_char
              (ascii ''https://www.gotokyo.org/en/event/family-day.html'')))))"
  have p: "parse_event_card ascii_lower title search to_float family_card =
          Some (event_poi ascii_lower title search to_float family_card
                  (ascii ''https://www.gotokyo.org/en/event/family-day.html'') ?i)"
    by (simp only: parse_event_card_def family_card_def event_card.simps option.case
        generate_poi_id_ascii sum.case)
  have c: "card_category_tags ascii_lower (ascii ''Family Day Out'') (ascii ''Fun for all ages'') [] = []"
    by (simp add: card_category_tags_def explicit_tags_def infer_tags_def eval_str)
  have s: "situational_tags (ascii_lower (spaced (ascii ''Family Day Out'') (ascii ''Fun for all ages''))) =
      [ascii ''Family Friendly'']"
    by (simp add: situational_tags_def eval_str)
  have n: "strip (ascii ''Family Day Out'') = ascii ''Family Day Out''"
      "strip (ascii ''Fun for all ages'') = ascii ''Fun for all ages''"
    by (simp_all add: eval_str)
  have f: "card_name family_card = ascii ''Family Day Out''"
      "event_description family_card = strip (ascii ''Fun for all ages'')" "card_tags family_card = []"
    by (simp_all add: family_card_def event_description_def)
  show ?thesis
    unfolding p option.map event_poi_category_tags event_poi_interest_tags f n
      card_interest_tags_def c s
    by (simp add: tag_set_or_event_def)
qed

section \<open>Properties of the time of day\<close>

lemma startswith_iff: "startswith s w \<longleftrightarrow> (\<exists>suf. s = w @ suf)"
proof
  assume "startswith s w"
  then have "s = w @ drop (length w) s"
    unfolding startswith_def by (metis append_take_drop_id)
  then show "\<exists>suf. s = w @ suf" ..
next
  assume "\<exists>suf. s = w @ suf"
  then show "startswith s w" by (auto simp: startswith_def)
qed

lemma py_in_iff_occurs: "py_in w t \<longleftrightarrow> occurs w t"
proof (induction t)
  case Nil
  show ?case by (auto simp: occurs_def)
next
  case (Cons c cs)
  show ?case
  proof
    assume "py_in w (c # cs)"
    then consider "startswith (c # cs) w" | "py_in w cs" by auto
    then show "occurs w (c # cs)"
    proof cases
      case 1
      then obtain suf where "c # cs = w @ suf" by (auto simp: startswith_iff)
      then have "c # cs = [] @ w @ suf" by simp
      then show ?thesis unfolding occurs_def by blast
    next
      case 2
      with Cons obtain pre suf where "cs = pre @ w @ suf" by (auto simp: occurs_def)
      then have "c # cs = (c # pre) @ w @ suf" by simp
      then show ?thesis unfolding occurs_def by blast
    qed
  next
    assume "occurs w (c # cs)"
    then obtain pre suf where e: "c # cs = pre @ w @ suf" by (auto simp: occurs_def)
    show "py_in w (c # cs)"
    proof (cases pre)
      case Nil
      with e have "startswith (c # cs) w" by (auto simp: startswith_iff)
      then show ?thesis by simp
    next
      case (Cons a pre')
      with e have "cs = pre' @ w @ suf" by simp
      then have "occurs w cs" unfolding occurs_def by blast
      with Cons.IH show ?thesis by simp
    qed
  qed
qed

lemma any_in_iff: "any_in ws t \<longleftrightarrow> (\<exists>w \<in> set ws. occurs w t)"
  by (simp add: any_in_def list_ex_iff py_in_iff_occurs)

lemma event_poi_best_time:
  "best_time_of_day (event_poi low title search to_float el url i) =
     best_time (low (spaced (strip (card_name el)) (spaced (event_description el) (event_date_text el))))"
  by (simp add: event_poi_def Let_def)

lemma best_time_nonempty: "best_time t = Some b \<Longrightarrow> b \<noteq> []"
  by (auto simp: best_time_def split: if_splits)

lemma spider_item_best_time:
  "i_best_time_of_day (spider_item low el pid name) =
     best_time (low (spaced name (spaced (spider_description el name) (spider_event_date el))))"
  by (cases "best_time (low (spaced name (spaced (spider_description el name) (spider_event_date el))))")
     (auto simp: spider_item_def Let_def take_first_def dest: best_time_nonempty)

lemma parse_event_detail_best_time:
  "i_best_time_of_day (parse_event_detail search to_float r it) = i_best_time_of_day it"
  by (simp add: parse_event_detail_def Let_def split: option.splits)

lemma assign_id_best_time: "assign_id it = Inr it' \<Longrightarrow> i_best_time_of_day it' = i_best_time_of_day it"
  by (auto simp: assign_id_def Let_def split: if_splits sum.splits)

lemma set_duration_best_time: "i_best_time_of_day (set_duration low it) = i_best_time_of_day it"
  by (simp add: set_duration_def split: option.splits)

lemma normalization_best_time:
  assumes "POINormalizationPipeline_process_item low now it = Inr out"
  shows "i_best_time_of_day out =
           (if truthy_str (i_best_time_of_day it) then i_best_time_of_day it else None)"
proof -
  from assms obtain it1 where a: "assign_id it = Inr it1"
    by (auto simp: POINormalizationPipeline_process_item_def split: sum.splits)
  with assms show ?thesis
    by (auto simp: POINormalizationPipeline_process_item_def Let_def set_duration_best_time
        set_defaults_def ensure_type_def assign_id_best_time [OF a])
qed

lemma restaurant_poi_best_time:
  "best_time_of_day (restaurant_poi el cat n u i :: 'f poi) =
     Some (restaurant_best_time (price_range (restaurant_poi el cat n u i :: 'f poi)))"
  by (simp add: restaurant_poi_def Let_def)

lemma apply_details_best_time: "best_time_of_day (apply_details p d) = best_time_of_day p"
  by (simp add: apply_details_def Let_def split: option.splits)

text \<open>
  C7, as stated, fails on restaurant records: the record of \<open>Sushi Saito\<close> has the time of
  day \<open>night\<close>, which comes from its price tier, although no time-of-day word occurs in its
  name and description.
\<close>

theorem restaurant_best_time_not_scanned:
  "map_option best_time_of_day
     (scrape_restaurant ascii_lower sample_search Some (\<lambda>x. True) sushi_card (ascii ''Sushi'') None
        :: pystr poi option) = Some (Some (ascii ''night'')) \<and>
   map_option short_description
     (scrape_restaurant ascii_lower sample_search Some (\<lambda>x. True) sushi_card (ascii ''Sushi'') None
        :: pystr poi option) = Some (ascii ''Sushi restaurant in Roppongi'') \<and>
   best_time (ascii_lower (spaced (ascii ''Sushi Saito'')
                (spaced (ascii ''Sushi restaurant in Roppongi'') []))) = None"
  by (simp add: scrape_restaurant_def parse_restaurant_card_def restaurant_poi_def sushi_card_def
      generate_poi_id_def utf8_encode_def is_surrogate_def clean_text_def apply_details_def
      parse_detail_page_def restaurant_best_time_def parse_price_def price_char_def clean_price_def
      remove_char_def py_int_def is_digit_def digits_value_def price_tier_def
      best_time_def morning_words_def afternoon_words_def evening_words_def eval_str Let_def)

text \<open>
  C7, amended. The scan \<open>best_time\<close> answers \<open>morning\<close> exactly when a morning word occurs
  in the text, \<open>afternoon\<close> exactly when no morning word but an afternoon word occurs,
  \<open>evening\<close> exactly when only an evening word occurs, and null exactly when no word of the
  three lists occurs. Every event record of the standalone scraper, and every item the crawl
  exports for an item of the spider, has the scan of its lower-cased name, description and
  date text as its time of day. A restaurant record has \<open>night\<close> when the price tier of its
  list item is above 2 and \<open>afternoon\<close> otherwise, never null.
\<close>

theorem best_time_of_day_by_source:
  "(best_time t = Some (ascii ''morning'') \<longleftrightarrow> (\<exists>w \<in> set morning_words. occurs w t)) \<and>
   (best_time t = Some (ascii ''afternoon'') \<longleftrightarrow>
      \<not> (\<exists>w \<in> set morning_words. occurs w t) \<and> (\<exists>w \<in> set afternoon_words. occurs w t)) \<and>
   (best_time t = Some (ascii ''evening'') \<longleftrightarrow>
      \<not> (\<exists>w \<in> set morning_words. occurs w t) \<and> \<not> (\<exists>w \<in> set afternoon_words. occurs w t) \<and>
      (\<exists>w \<in> set evening_words. occurs w t)) \<and>
   (best_time t = None \<longleftrightarrow>
      \<not> (\<exists>w \<in> set morning_words. occurs w t) \<and> \<not> (\<exists>w \<in> set afternoon_words. occurs w t) \<and>
      \<not> (\<exists>w \<in> set evening_words. occurs w t)) \<and>
   (parse_event_card low title search to_float element = Some p \<longrightarrow>
      best_time_of_day p =
        best_time (low (spaced (strip (card_name element))
                     (spaced (event_description element) (event_date_text element))))) \<and>
   (spider_yield low search to_float response_url spider_element detail = Some it \<longrightarrow>
      (\<exists>name. first_selection (sc_names spider_element) = Some name \<and>
         (\<forall>out \<in> set (crawl_export low [(it, now)]).
            i_best_time_of_day out =
              best_time (low (spaced name (spaced (spider_description spider_element name)
                                             (spider_event_date spider_element))))))) \<and>
   (scrape_restaurant low search to_float float_true list_item category detail_page = Some r \<longrightarrow>
      best_time_of_day r =
        Some (restaurant_best_time
                (case rc_price list_item of None \<Rightarrow> None | Some price \<Rightarrow> parse_price price)) \<and>
      (best_time_of_day r = Some (ascii ''night'') \<or> best_time_of_day r = Some (ascii ''afternoon'')))"
proof (intro conjI impI)
  show "best_time t = Some (ascii ''morning'') \<longleftrightarrow> (\<exists>w \<in> set morning_words. occurs w t)"
    by (simp add: best_time_def any_in_iff)
  show "best_time t = Some (ascii ''afternoon'') \<longleftrightarrow>
      \<not> (\<exists>w \<in> set morning_words. occurs w t) \<and> (\<exists>w \<in> set afternoon_words. occurs w t)"
    by (simp add: best_time_def any_in_iff)
  show "best_time t = Some (ascii ''evening'') \<longleftrightarrow>
      \<not> (\<exists>w \<in> set morning_words. occurs w t) \<and> \<not> (\<exists>w \<in> set afternoon_words. occurs w t) \<and>
      (\<exists>w \<in> set evening_words. occurs w t)"
    by (simp add: best_time_def any_in_iff)
  show "best_time t = None \<longleftrightarrow>
      \<not> (\<exists>w \<in> set morning_words. occurs w t) \<and> \<not> (\<exists>w \<in> set afternoon_words. occurs w t) \<and>
      \<not> (\<exists>w \<in> set evening_words. occurs w t)"
    by (simp add: best_time_def any_in_iff)
next
  assume "parse_event_card low title search to_float element = Some p"
  from parse_event_card_SomeD [OF this]
  show "best_time_of_day p =
        best_time (low (spaced (strip (card_name element))
                     (spaced (event_description element) (event_date_text element))))"
    by (auto simp: event_poi_best_time)
next
  assume y: "spider_yield low search to_float response_url spider_element detail = Some it"
  then obtain it0 where it0: "spider_parse_event_card low spider_element = Some it0"
    and it: "it = it0 \<or> (\<exists>resp. it = parse_event_detail search to_float resp it0)"
    by (auto simp: spider_yield_def split: option.splits if_splits)
  from spider_parse_event_card_SomeD [OF it0] obtain pid name
    where n: "first_selection (sc_names spider_element) = Some name"
      and i0: "it0 = spider_item low spider_element pid name" by blast
  let ?b = "best_time (low (spaced name (spaced (spider_description spider_element name)
                                             (spider_event_date spider_element))))"
  from it i0 have b: "i_best_time_of_day it = ?b"
    by (auto simp: parse_event_detail_best_time spider_item_best_time)
  have "\<forall>out \<in> set (crawl_export low [(it, now)]). i_best_time_of_day out = ?b"
  proof
    fix out
    assume "out \<in> set (crawl_export low [(it, now)])"
    with chain_cases [of low "[]" it now]
    have "POINormalizationPipeline_process_item low now it = Inr out"
      by (auto simp: crawl_export_def)
    from normalization_best_time [OF this] b show "i_best_time_of_day out = ?b"
      by (cases ?b) (auto simp: truthy_str_def dest: best_time_nonempty)
  qed
  with n show "\<exists>name. first_selection (sc_names spider_element) = Some name \<and>
         (\<forall>out \<in> set (crawl_export low [(it, now)]).
            i_best_time_of_day out =
              best_time (low (spaced name (spaced (spider_description spider_element name)
                                             (spider_event_date spider_element)))))"
    by blast
next
  assume s: "scrape_restaurant low search to_float float_true list_item category detail_page = Some r"
  then obtain r0 where r0: "parse_restaurant_card list_item category = Some r0"
    and r: "r = apply_details r0 (parse_detail_page low search to_float float_true detail_page)"
    by (auto simp: scrape_restaurant_def)
  from parse_restaurant_card_SomeD [OF r0] obtain n u i
    where "r0 = restaurant_poi list_item category n u i" by blast
  with r show "best_time_of_day r =
        Some (restaurant_best_time
                (case rc_price list_item of None \<Rightarrow> None | Some price \<Rightarrow> parse_price price))"
    by (simp add: apply_details_best_time restaurant_poi_def Let_def)
  then show "best_time_of_day r = Some (ascii ''night'') \<or> best_time_of_day r = Some (ascii ''afternoon'')"
    by (simp add: restaurant_best_time_def split: option.splits)
qed


lemma sample_event_time_text:
  "best_time (ascii_lower (spaced (strip (card_name sample_event_card))
      (spaced (event_description sample_event_card) (event_date_text sample_event_card)))) =
     Some (ascii ''evening'')"
  by (simp add: sample_event_card_def event_description_def event_date_text_def best_time_def
      morning_words_def afternoon_words_def evening_words_def eval_str)

lemma sushi_card_price:
  "restaurant_best_time (case rc_price sushi_card of None \<Rightarrow> None | Some price \<Rightarrow> parse_price price) =
     ascii ''night''"
  by (simp add: sushi_card_def restaurant_best_time_def parse_price_def price_char_def
      clean_price_def remove_char_def py_int_def is_digit_def digits_value_def price_tier_def)

lemma sushi_card_scraped:
  "\<exists>r. scrape_restaurant low search to_float float_true sushi_card category None = Some r"
  by (simp add: scrape_restaurant_def parse_restaurant_card_def sushi_card_def startswith_def
      generate_poi_id_def utf8_encode_def is_surrogate_def Let_def)

theorem best_time_of_day_by_source_witness:
  "map_option best_time_of_day
     (parse_event_card ascii_lower (\<lambda>s. s) sample_search Some sample_event_card) =
     Some (Some (ascii ''evening'')) \<and>
   map i_best_time_of_day
     (crawl_export ascii_lower
        (case spider_yield ascii_lower sample_search Some
                (ascii ''https://www.gotokyo.org/en/event/index.html'')
                (sample_spider_card\<lparr>sc_dates := [[ascii ''April, evening illumination'']]\<rparr>)
                (Some sample_detail_response) :: pystr item option of
           None \<Rightarrow> []
         | Some it \<Rightarrow> [(it, ascii ''2025-04-01T09:00:00'')])) =
     [Some (ascii ''evening'')] \<and>
   map_option best_time_of_day
     (scrape_restaurant ascii_lower sample_search Some (\<lambda>x. True) sushi_card (ascii ''Sushi'') None) =
     Some (Some (ascii ''night''))"
proof -
  let ?p = "event_poi ascii_lower (\<lambda>s. s) sample_search Some sample_event_card
             (ascii ''https://www.gotokyo.org/en/event/sakura.html'')
             (take 12 (hexdigest (md5 (concat (map utf8_char (ascii ''https://www.gotokyo.org/en/event/sakura.html''))))))"
  have e: "parse_event_card ascii_lower (\<lambda>s. s) sample_search Some sample_event_card = Some ?p"
    by (rule sample_event_card_parsed)
  obtain r where r: "scrape_restaurant ascii_lower sample_search Some (\<lambda>x. True) sushi_card
      (ascii ''Sushi'') None = Some (r :: pystr poi)"
    using sushi_card_scraped by blast
  note t = best_time_of_day_by_source [of "[]" ascii_lower "\<lambda>s. s" sample_search Some
      sample_event_card ?p "[]" sample_spider_card None blank_item "[]" "\<lambda>x. True" sushi_card
      "ascii ''Sushi''" None r]
  have t5: "best_time_of_day ?p = Some (ascii ''evening'')"
    using t e by (simp only: sample_event_time_text)
  have t7: "best_time_of_day r = Some (ascii ''night'')"
    using t r by (simp only: sushi_card_price)
  have s: "map i_best_time_of_day
     (crawl_export ascii_lower
        (case spider_yield ascii_lower sample_search Some
                (ascii ''https://www.gotokyo.org/en/event/index.html'')
                (sample_spider_card\<lparr>sc_dates := [[ascii ''April, evening illumination'']]\<rparr>)
                (Some sample_detail_response) :: pystr item option of
           None \<Rightarrow> []
         | Some it \<Rightarrow> [(it, ascii ''2025-04-01T09:00:00'')])) =
     [Some (ascii ''evening'')]"
    by (simp add: eval_spider eval_pipeline eval_str sample_spider_card_def sample_detail_response_def
      sample_search_def poi_id_nonempty hexdigest_md5_nonempty Let_def coords_of_groups_def
      group_def py_float_def nonempty_strings_def)
  show ?thesis using e t5 r t7 s by simp
qed

section \<open>Properties of the description\<close>

lemma rfind_ge: "- 1 \<le> rfind c s"
  by (induction s) (auto simp: Let_def)






lemma truncate_at_short: "length d \<le> limit \<Longrightarrow> truncate_at limit m d = d"
  by (simp add: truncate_at_def)

















end
